theory Spec2Isabelle
  imports Main "HOL-Library.Word"
begin

section \<open>JavaScript strings\<close>

text \<open>
  A JavaScript string is a sequence of UTF-16 code units. String literals of the source
  are ASCII and are written through \<open>js\<close>.
\<close>

type_synonym code_unit = "16 word"
type_synonym jsstring = "code_unit list"

definition js :: "string \<Rightarrow> jsstring" where
  "js cs = map of_char cs"

definition slash :: code_unit where
  "slash = 0x2F"

definition startsWith :: "jsstring \<Rightarrow> jsstring \<Rightarrow> bool" where
  \<comment> \<open>\<open>s.startsWith(p)\<close>\<close>
  "startsWith s p = (take (length p) s = p)"

definition strip_trailing_slashes :: "jsstring \<Rightarrow> jsstring" where
  \<comment> \<open>\<open>s.replace(/\/+$/, "")\<close>: the leftmost match of \<open>\/+$\<close> is the whole final run of slashes\<close>
  "strip_trailing_slashes s = rev (dropWhile (\<lambda>c. c = slash) (rev s))"

definition strip_leading_slashes :: "jsstring \<Rightarrow> jsstring" where
  \<comment> \<open>\<open>s.replace(/^\/+/, "")\<close>\<close>
  "strip_leading_slashes s = dropWhile (\<lambda>c. c = slash) s"

section \<open>Configuration\<close>

text \<open>
  The \<open>env\<close> object of the worker. \<open>DOCS_BASE_DIR\<close> and \<open>DOCSTORE_API_TOKEN\<close> are
  tested for absence by the code, so they are optional here; \<open>None\<close> is \<open>undefined\<close>.
\<close>

record env =
  GITHUB_OWNER :: jsstring
  GITHUB_REPO :: jsstring
  GITHUB_BRANCH :: jsstring
  GITHUB_TOKEN :: jsstring
  DOCS_BASE_DIR :: "jsstring option"
  DOCSTORE_API_TOKEN :: "jsstring option"

definition or_default :: "jsstring option \<Rightarrow> jsstring \<Rightarrow> jsstring" where
  \<comment> \<open>\<open>x || d\<close> for \<open>x\<close> a string or \<open>undefined\<close>: the empty string is falsy\<close>
  "or_default x d = (case x of None \<Rightarrow> d | Some s \<Rightarrow> if s = [] then d else s)"

section \<open>Path mapping\<close>

definition normalizeBaseDir :: "env \<Rightarrow> jsstring" where
  "normalizeBaseDir e =
     (let base = or_default (DOCS_BASE_DIR e) (js ''docs'')
      in strip_trailing_slashes base)"

definition buildRepoPath :: "env \<Rightarrow> jsstring \<Rightarrow> jsstring" where
  "buildRepoPath e docPath =
     (let base = normalizeBaseDir e in
      if docPath = [] \<or> docPath = [slash] then base
      else let cleaned = strip_leading_slashes docPath
           in base @ [slash] @ cleaned)"

definition logicalPathFromGitPath :: "env \<Rightarrow> jsstring \<Rightarrow> jsstring" where
  \<comment> \<open>from the second worker source of the repository, which imports \<open>normalizeBaseDir\<close>\<close>
  "logicalPathFromGitPath e gitPath =
     (let base = normalizeBaseDir e in
      if gitPath = base then []
      else if startsWith gitPath (base @ [slash]) then drop (length base + 1) gitPath
      else gitPath)"

text \<open>The configuration used by the repository's tests.\<close>

definition test_env :: env where
  "test_env = \<lparr> GITHUB_OWNER = js ''owner'', GITHUB_REPO = js ''repo'',
                GITHUB_BRANCH = js ''main'', GITHUB_TOKEN = js ''fake-token'',
                DOCS_BASE_DIR = Some (js ''docs''),
                DOCSTORE_API_TOKEN = Some (js ''api-token'') \<rparr>"

section \<open>JSON values and JavaScript errors\<close>

text \<open>
  The values \<open>JSON.parse\<close> produces. An object is the list of its properties; a
  property read finds the first entry with the key. \<open>undefined\<close> is not a JSON value:
  a JavaScript value that may be \<open>undefined\<close> is a \<open>json option\<close>.
\<close>

datatype json =
    JNull
  | JBool bool
  | JNum int
  | JStr jsstring
  | JArr "json list"
  | JObj "(jsstring \<times> json) list"

text \<open>
  What the code can throw: the error \<open>githubRequest\<close> builds (with \<open>status\<close>,
  \<open>message\<close> and \<open>githubBody\<close>), a plain \<open>Error\<close> with a message, and the errors
  the platform raises (a property read on \<open>null\<close> or \<open>undefined\<close>, \<open>btoa\<close>/\<open>atob\<close> on
  bad input, a malformed percent escape, a rejected \<open>fetch\<close>).
\<close>

datatype js_error =
    GithubError nat jsstring json
  | PlainError jsstring
  | TypeError
  | InvalidCharacterError
  | URIError
  | FetchRejected

fun err_status :: "js_error \<Rightarrow> nat option" where
  \<comment> \<open>\<open>err.status\<close>; \<open>None\<close> is \<open>undefined\<close>\<close>
  "err_status (GithubError st msg b) = Some st"
| "err_status _ = None"

fun get_prop :: "json \<Rightarrow> jsstring \<Rightarrow> js_error + json option" where
  \<comment> \<open>\<open>x.k\<close> for the property names the code reads (\<open>sha\<close>, \<open>message\<close>, \<open>content\<close>,
      \<open>commit\<close>, \<open>path\<close>, \<open>name\<close>, \<open>type\<close>): none of them is a property of a string,
      number, boolean or array\<close>
  "get_prop JNull k = Inl TypeError"
| "get_prop (JObj fs) k = Inr (map_of fs k)"
| "get_prop _ k = Inr None"

fun get_prop_u :: "json option \<Rightarrow> jsstring \<Rightarrow> js_error + json option" where
  \<comment> \<open>\<open>x.k\<close> where \<open>x\<close> may be \<open>undefined\<close>\<close>
  "get_prop_u None k = Inl TypeError"
| "get_prop_u (Some v) k = get_prop v k"

fun truthy :: "json option \<Rightarrow> bool" where
  "truthy None = False"
| "truthy (Some JNull) = False"
| "truthy (Some (JBool b)) = b"
| "truthy (Some (JNum n)) = (n \<noteq> 0)"
| "truthy (Some (JStr s)) = (s \<noteq> [])"
| "truthy (Some (JArr xs)) = True"
| "truthy (Some (JObj fs)) = True"

definition obj :: "(jsstring \<times> json option) list \<Rightarrow> json" where
  \<comment> \<open>an object literal as \<open>JSON.stringify\<close> writes it: a property whose value is
      \<open>undefined\<close> is left out\<close>
  "obj fs = JObj (List.map_filter (\<lambda>(k, v). map_option (Pair k) v) fs)"

definition bindE :: "js_error + 'a \<Rightarrow> ('a \<Rightarrow> js_error + 'b) \<Rightarrow> js_error + 'b" where
  \<comment> \<open>sequencing of two steps that may throw\<close>
  "bindE m f = (case m of Inl err \<Rightarrow> Inl err | Inr x \<Rightarrow> f x)"

section \<open>The platform\<close>

text \<open>
  The globals the code finds at run time. \<open>btoa\<close> and \<open>atob\<close>, where they exist, are the
  functions of the HTML Standard, modelled below. \<open>Buffer\<close>, where it exists, converts
  between UTF-8 text and base64. \<open>encodeURIComponent\<close> is taken on well-formed UTF-16
  (paths out of \<open>decodeURIComponent\<close> and the configuration), where it does not throw.
\<close>

record buffer_api =
  utf8_to_base64 :: "jsstring \<Rightarrow> jsstring"
  base64_to_utf8 :: "jsstring \<Rightarrow> jsstring"

record runtime =
  has_btoa :: bool
  has_atob :: bool
  Buffer :: "buffer_api option"
  encodeURIComponent :: "jsstring \<Rightarrow> jsstring"
  decode_escapes :: "jsstring \<Rightarrow> js_error + jsstring"
  to_string :: "json \<Rightarrow> jsstring"
  platform_message :: "js_error \<Rightarrow> jsstring"
  error_string :: "js_error \<Rightarrow> jsstring"
  fromBase64_nonstring :: "json option \<Rightarrow> js_error + jsstring"

definition percent :: code_unit where
  "percent = 0x25"

definition decodeURIComponent :: "runtime \<Rightarrow> jsstring \<Rightarrow> js_error + jsstring" where
  \<comment> \<open>a string without \<open>%\<close> is returned as it is; escapes are the platform's work\<close>
  "decodeURIComponent rt s = (if percent \<in> set s then decode_escapes rt s else Inr s)"

fun err_message :: "runtime \<Rightarrow> js_error \<Rightarrow> jsstring" where
  \<comment> \<open>\<open>err.message\<close>\<close>
  "err_message rt (GithubError st msg b) = msg"
| "err_message rt (PlainError msg) = msg"
| "err_message rt err = platform_message rt err"

fun message_string :: "runtime \<Rightarrow> json \<Rightarrow> jsstring" where
  \<comment> \<open>the string \<open>new Error(v)\<close> keeps as its message\<close>
  "message_string rt (JStr s) = s"
| "message_string rt v = to_string rt v"

subsection \<open>Base64 as \<open>btoa\<close> and \<open>atob\<close> compute it\<close>

definition b64_code :: "nat \<Rightarrow> nat" where
  \<comment> \<open>the character code of a sextet: \<open>A-Z\<close>, \<open>a-z\<close>, \<open>0-9\<close>, \<open>+\<close>, \<open>/\<close>\<close>
  "b64_code n =
     (if n < 26 then 65 + n
      else if n < 52 then 97 + (n - 26)
      else if n < 62 then 48 + (n - 52)
      else if n = 62 then 43 else 47)"

definition b64_char :: "nat \<Rightarrow> code_unit" where
  "b64_char n = of_nat (b64_code n)"

definition b64_index :: "code_unit \<Rightarrow> nat option" where
  "b64_index c =
     (let k = unat c in
      if 65 \<le> k \<and> k \<le> 90 then Some (k - 65)
      else if 97 \<le> k \<and> k \<le> 122 then Some (k - 97 + 26)
      else if 48 \<le> k \<and> k \<le> 57 then Some (k - 48 + 52)
      else if k = 43 then Some 62
      else if k = 47 then Some 63
      else None)"

definition pad :: code_unit where
  "pad = 0x3D"

fun b64_encode :: "nat list \<Rightarrow> jsstring" where
  "b64_encode [] = []"
| "b64_encode [a] = [b64_char (a div 4), b64_char ((a mod 4) * 16), pad, pad]"
| "b64_encode [a, b] =
     [b64_char (a div 4), b64_char ((a mod 4) * 16 + b div 16), b64_char ((b mod 16) * 4), pad]"
| "b64_encode (a # b # c # bs) =
     [b64_char (a div 4), b64_char ((a mod 4) * 16 + b div 16),
      b64_char ((b mod 16) * 4 + c div 64), b64_char (c mod 64)] @ b64_encode bs"

fun b64_decode :: "nat list \<Rightarrow> nat list" where
  \<comment> \<open>sextets to bytes; a final group of two or three sextets drops its spare bits\<close>
  "b64_decode (p # q # r # s # ss) =
     [p * 4 + q div 16, (q mod 16) * 16 + r div 4, (r mod 4) * 64 + s] @ b64_decode ss"
| "b64_decode [p, q, r] = [p * 4 + q div 16, (q mod 16) * 16 + r div 4]"
| "b64_decode [p, q] = [p * 4 + q div 16]"
| "b64_decode ss = []"

text \<open>The sextets and the number of padding characters of an encoding, for the proofs.\<close>

fun sextets :: "nat list \<Rightarrow> nat list" where
  "sextets [] = []"
| "sextets [a] = [a div 4, (a mod 4) * 16]"
| "sextets [a, b] = [a div 4, (a mod 4) * 16 + b div 16, (b mod 16) * 4]"
| "sextets (a # b # c # bs) =
     [a div 4, (a mod 4) * 16 + b div 16, (b mod 16) * 4 + c div 64, c mod 64] @ sextets bs"

fun padding :: "nat list \<Rightarrow> nat" where
  "padding [] = 0"
| "padding [a] = 2"
| "padding [a, b] = 1"
| "padding (a # b # c # bs) = padding bs"

definition btoa :: "jsstring \<Rightarrow> js_error + jsstring" where
  \<comment> \<open>HTML Standard: throws when a code unit is above U+00FF, else encodes the bytes\<close>
  "btoa s =
     (if filter (\<lambda>c. 0xFF < c) s \<noteq> [] then Inl InvalidCharacterError
      else Inr (b64_encode (map unat s)))"

definition ascii_whitespace :: "code_unit \<Rightarrow> bool" where
  "ascii_whitespace c = (c = 0x09 \<or> c = 0x0A \<or> c = 0x0C \<or> c = 0x0D \<or> c = 0x20)"

definition strip_padding :: "jsstring \<Rightarrow> jsstring" where
  \<comment> \<open>if the length is a multiple of 4, one or two final \<open>=\<close> are removed\<close>
  "strip_padding d =
     (if length d mod 4 = 0 then
        (if 2 \<le> length d \<and> drop (length d - 2) d = [pad, pad] then take (length d - 2) d
         else if 1 \<le> length d \<and> drop (length d - 1) d = [pad] then take (length d - 1) d
         else d)
      else d)"

definition atob :: "jsstring \<Rightarrow> js_error + jsstring" where
  \<comment> \<open>HTML Standard: the forgiving-base64 decode of the Infra Standard\<close>
  "atob s =
     (let d = strip_padding (filter (\<lambda>c. \<not> ascii_whitespace c) s) in
      if length d mod 4 = 1 then Inl InvalidCharacterError
      else case those (map b64_index d) of
             None \<Rightarrow> Inl InvalidCharacterError
           | Some sx \<Rightarrow> Inr (map of_nat (b64_decode sx)))"

definition toBase64 :: "runtime \<Rightarrow> jsstring \<Rightarrow> js_error + jsstring" where
  "toBase64 rt str =
     (if has_btoa rt then btoa str
      else case Buffer rt of
             Some buf \<Rightarrow> Inr (utf8_to_base64 buf str)
           | None \<Rightarrow> Inl (PlainError (js ''No base64 encoder available for toBase64'')))"

definition fromBase64 :: "runtime \<Rightarrow> jsstring \<Rightarrow> js_error + jsstring" where
  "fromBase64 rt str =
     (if has_atob rt then atob str
      else case Buffer rt of
             Some buf \<Rightarrow> Inr (base64_to_utf8 buf str)
           | None \<Rightarrow> Inl (PlainError (js ''No base64 decoder available for fromBase64'')))"

text \<open>
  The Cloudflare Workers runtime, which is also what Node 18 and later give the tests:
  \<open>btoa\<close> and \<open>atob\<close> exist. The remaining platform functions are instantiated with
  simple total stand-ins; no theorem below depends on them beyond the inputs it names.
\<close>

definition hex_digit :: "nat \<Rightarrow> code_unit" where
  "hex_digit n = (if n < 10 then of_nat (48 + n) else of_nat (55 + n))"

definition unreserved :: "code_unit \<Rightarrow> bool" where
  \<comment> \<open>the characters \<open>encodeURIComponent\<close> leaves as they are\<close>
  "unreserved c =
     (let k = unat c in
      (65 \<le> k \<and> k \<le> 90) \<or> (97 \<le> k \<and> k \<le> 122) \<or> (48 \<le> k \<and> k \<le> 57) \<or>
      k \<in> set [45, 95, 46, 33, 126, 42, 39, 40, 41])"

definition percent_encode_ascii :: "jsstring \<Rightarrow> jsstring" where
  \<comment> \<open>\<open>encodeURIComponent\<close> on ASCII text: every other character becomes \<open>%XX\<close>\<close>
  "percent_encode_ascii s =
     concat (map (\<lambda>c. if unreserved c then [c]
                       else [percent, hex_digit (unat c div 16), hex_digit (unat c mod 16)]) s)"

definition workers :: runtime where
  "workers = \<lparr> has_btoa = True, has_atob = True, Buffer = None,
               encodeURIComponent = percent_encode_ascii,
               decode_escapes = (\<lambda>s. Inl URIError),
               to_string = (\<lambda>v. js ''[object Object]''),
               platform_message = (\<lambda>err. js ''error''),
               error_string = (\<lambda>err. js ''Error''),
               fromBase64_nonstring = (\<lambda>v. Inl InvalidCharacterError) \<rparr>"

section \<open>The content-store client\<close>

text \<open>
  A call of the global \<open>fetch\<close>. The body is kept as the JSON value that
  \<open>JSON.stringify\<close> writes. The backing store answers a request knowing the requests
  made before it; every request is appended to the log, which is the only state.
  A response carries its status and the value \<open>githubRequest\<close> reads from its text:
  \<open>JNull\<close> for an empty text, the string itself for a text that is not JSON.
  \<open>Rejected\<close> is a \<open>fetch\<close> whose promise rejects. \<open>console.error\<close> is not modelled.
\<close>

record gh_request =
  gh_method :: jsstring
  gh_url :: jsstring
  gh_headers :: "(jsstring \<times> jsstring) list"
  gh_body :: "json option"

datatype fetch_outcome = Rejected | Response nat json

type_synonym backend = "gh_request list \<Rightarrow> gh_request \<Rightarrow> fetch_outcome"

type_synonym 'a io = "(js_error + 'a) \<times> gh_request list"

definition GITHUB_API_BASE :: jsstring where
  "GITHUB_API_BASE = js ''https://api.github.com''"

fun decimal :: "nat \<Rightarrow> jsstring" where
  \<comment> \<open>a status code inside a template literal\<close>
  "decimal n = (if n < 10 then [of_nat (48 + n)] else decimal (n div 10) @ [of_nat (48 + n mod 10)])"

definition response_ok :: "nat \<Rightarrow> bool" where
  \<comment> \<open>\<open>res.ok\<close>\<close>
  "response_ok st = (200 \<le> st \<and> st \<le> 299)"

definition build_request :: "jsstring \<Rightarrow> jsstring \<Rightarrow> env \<Rightarrow> json option \<Rightarrow> gh_request" where
  \<comment> \<open>the \<open>url\<close>, \<open>headers\<close> and \<open>init\<close> that \<open>githubRequest\<close> hands to \<open>fetch\<close>\<close>
  "build_request method path e body =
     (let url = GITHUB_API_BASE @ path;
          headers = [(js ''Authorization'', js ''Bearer '' @ GITHUB_TOKEN e),
                     (js ''Accept'', js ''application/vnd.github+json''),
                     (js ''User-Agent'', js ''cloudflare-docstore-worker'')]
                    @ (if body \<noteq> None then [(js ''Content-Type'', js ''application/json'')] else [])
      in \<lparr> gh_method = method, gh_url = url, gh_headers = headers, gh_body = body \<rparr>)"

definition error_of_response :: "runtime \<Rightarrow> nat \<Rightarrow> json \<Rightarrow> js_error" where
  \<comment> \<open>the error \<open>githubRequest\<close> throws for a response that is not \<open>ok\<close>; its message is
      \<open>(json && json.message) ? json.message : `GitHub API error ${res.status}`\<close>\<close>
  "error_of_response rt st json =
     (let fallback = js ''GitHub API error '' @ decimal st;
          message =
            (if truthy (Some json) then
               (case get_prop json (js ''message'') of
                  Inr (Some m) \<Rightarrow> if truthy (Some m) then message_string rt m else fallback
                | _ \<Rightarrow> fallback)
             else fallback)
      in GithubError st message json)"

definition githubRequest ::
  "runtime \<Rightarrow> backend \<Rightarrow> jsstring \<Rightarrow> jsstring \<Rightarrow> env \<Rightarrow> json option \<Rightarrow> gh_request list \<Rightarrow> json io" where
  "githubRequest rt be method path e body log =
     (let req = build_request method path e body;
          log' = log @ [req]
      in case be log req of
           Rejected \<Rightarrow> (Inl FetchRejected, log')
         | Response st json \<Rightarrow>
             if \<not> response_ok st then (Inl (error_of_response rt st json), log')
             else (Inr json, log'))"

definition contents_path :: "runtime \<Rightarrow> env \<Rightarrow> jsstring \<Rightarrow> jsstring" where
  \<comment> \<open>\<open>/repos/${GITHUB_OWNER}/${GITHUB_REPO}/contents/${encodeURIComponent(repoPath)}\<close>\<close>
  "contents_path rt e repoPath =
     js ''/repos/'' @ GITHUB_OWNER e @ [slash] @ GITHUB_REPO e @ js ''/contents/''
       @ encodeURIComponent rt repoPath"

definition ref_query :: "runtime \<Rightarrow> env \<Rightarrow> jsstring" where
  \<comment> \<open>\<open>?ref=${encodeURIComponent(GITHUB_BRANCH)}\<close>\<close>
  "ref_query rt e = js ''?ref='' @ encodeURIComponent rt (GITHUB_BRANCH e)"

definition getFile :: "runtime \<Rightarrow> backend \<Rightarrow> env \<Rightarrow> jsstring \<Rightarrow> gh_request list \<Rightarrow> json io" where
  "getFile rt be e docPath log =
     (let repoPath = buildRepoPath e docPath;
          apiPath = contents_path rt e repoPath @ ref_query rt e
      in githubRequest rt be (js ''GET'') apiPath e None log)"

definition put_body :: "env \<Rightarrow> jsstring \<Rightarrow> jsstring \<Rightarrow> json option \<Rightarrow> json" where
  \<comment> \<open>the \<open>body\<close> object of \<open>putFile\<close>, with \<open>sha\<close> added \<open>if (existingSha)\<close>\<close>
  "put_body e message encoded existingSha =
     obj ([(js ''message'', Some (JStr message)),
           (js ''content'', Some (JStr encoded)),
           (js ''branch'', Some (JStr (GITHUB_BRANCH e)))]
          @ (if truthy existingSha then [(js ''sha'', existingSha)] else []))"

definition delete_body :: "env \<Rightarrow> jsstring \<Rightarrow> json option \<Rightarrow> json" where
  \<comment> \<open>the \<open>body\<close> object of \<open>deleteFile\<close>\<close>
  "delete_body e message sha =
     obj [(js ''message'', Some (JStr message)),
          (js ''sha'', sha),
          (js ''branch'', Some (JStr (GITHUB_BRANCH e)))]"

definition putFile ::
  "runtime \<Rightarrow> backend \<Rightarrow> env \<Rightarrow> jsstring \<Rightarrow> jsstring \<Rightarrow> jsstring option \<Rightarrow> gh_request list \<Rightarrow> json io" where
  "putFile rt be e docPath content commitMessage log =
     (let repoPath = buildRepoPath e docPath;
          apiPath = contents_path rt e repoPath;
          discovered =
            (case getFile rt be e docPath log of
               (Inr current, log1) \<Rightarrow>
                 (case get_prop current (js ''sha'') of
                    Inr sha \<Rightarrow> (Inr sha, log1)
                  | Inl err \<Rightarrow> if err_status err \<noteq> Some 404 then (Inl err, log1) else (Inr None, log1))
             | (Inl err, log1) \<Rightarrow>
                 if err_status err \<noteq> Some 404 then (Inl err, log1) else (Inr None, log1))
      in case discovered of
           (Inl err, log1) \<Rightarrow> (Inl err, log1)
         | (Inr existingSha, log1) \<Rightarrow>
             (let message = or_default commitMessage
                              (if truthy existingSha then js ''Update '' @ repoPath
                               else js ''Create '' @ repoPath)
              in case toBase64 rt content of
                   Inl err \<Rightarrow> (Inl err, log1)
                 | Inr encoded \<Rightarrow>
                     (let body = put_body e message encoded existingSha
                      in githubRequest rt be (js ''PUT'') apiPath e (Some body) log1)))"

definition deleteFile ::
  "runtime \<Rightarrow> backend \<Rightarrow> env \<Rightarrow> jsstring \<Rightarrow> jsstring option \<Rightarrow> gh_request list \<Rightarrow> json io" where
  "deleteFile rt be e docPath commitMessage log =
     (let repoPath = buildRepoPath e docPath;
          apiPath = contents_path rt e repoPath
      in case getFile rt be e docPath log of
           (Inl err, log1) \<Rightarrow> (Inl err, log1)
         | (Inr current, log1) \<Rightarrow>
             (case get_prop current (js ''sha'') of
                Inl err \<Rightarrow> (Inl err, log1)
              | Inr sha \<Rightarrow>
                  (let body = delete_body e (or_default commitMessage (js ''Delete '' @ repoPath)) sha
                   in githubRequest rt be (js ''DELETE'') apiPath e (Some body) log1)))"

definition listDocs ::
  "runtime \<Rightarrow> backend \<Rightarrow> env \<Rightarrow> jsstring option \<Rightarrow> gh_request list \<Rightarrow> (json list) io" where
  \<comment> \<open>the \<open>case\<close> is \<open>Array.isArray(res)\<close>\<close>
  "listDocs rt be e dirPath log =
     (let repoPath = buildRepoPath e (or_default dirPath []);
          apiPath = contents_path rt e repoPath @ ref_query rt e
      in case githubRequest rt be (js ''GET'') apiPath e None log of
           (Inl err, log1) \<Rightarrow> (Inl err, log1)
         | (Inr res, log1) \<Rightarrow>
             (case res of
                JArr items \<Rightarrow> (Inr items, log1)
              | _ \<Rightarrow> (Inr [res], log1)))"

section \<open>The request router\<close>

text \<open>
  An inbound request as the handler reads it: the method, the path name of its URL, the
  \<open>dir\<close> query parameter and the \<open>Authorization\<close> header (\<open>None\<close> where \<open>get\<close> returns
  \<open>null\<close>), and what \<open>request.json()\<close> yields (\<open>None\<close> where it rejects: no body, or a
  body that is not JSON).
\<close>

record request =
  req_method :: jsstring
  req_pathname :: jsstring
  req_dir :: "jsstring option"
  req_authorization :: "jsstring option"
  req_json :: "json option"

record response =
  res_status :: nat
  res_body :: json

datatype auth = AuthOk | AuthFail nat jsstring

definition jsonResponse :: "json \<Rightarrow> nat \<Rightarrow> response" where
  "jsonResponse v st = \<lparr> res_status = st, res_body = v \<rparr>"

definition notFound :: "jsstring \<Rightarrow> response" where
  "notFound message = jsonResponse (obj [(js ''error'', Some (JStr message))]) 404"

definition badRequest :: "jsstring \<Rightarrow> response" where
  "badRequest message = jsonResponse (obj [(js ''error'', Some (JStr message))]) 400"

definition checkAuth :: "request \<Rightarrow> env \<Rightarrow> auth" where
  "checkAuth req e =
     (if req_pathname req = js ''/'' \<and> req_method req = js ''GET'' then AuthOk
      else case DOCSTORE_API_TOKEN e of
             None \<Rightarrow> AuthFail 500 (js ''DOCSTORE_API_TOKEN is not configured'')
           | Some token \<Rightarrow>
               if token = [] then AuthFail 500 (js ''DOCSTORE_API_TOKEN is not configured'')
               else let authHeader = or_default (req_authorization req) [];
                        expected = js ''Bearer '' @ token
                    in if authHeader \<noteq> expected then AuthFail 401 (js ''Unauthorized'')
                       else AuthOk)"

definition error_response :: "runtime \<Rightarrow> js_error \<Rightarrow> jsstring \<Rightarrow> response" where
  \<comment> \<open>the \<open>catch\<close> of the three document handlers\<close>
  "error_response rt err not_found_message =
     (if err_status err = Some 404 then notFound not_found_message
      else jsonResponse
             (obj [(js ''error'', Some (JStr (or_default (Some (err_message rt err)) (js ''Internal error''))))])
             500)"

definition list_item :: "json \<Rightarrow> js_error + json" where
  \<comment> \<open>\<open>item => ({ name: item.name, path: item.path, type: item.type })\<close>\<close>
  "list_item item =
     bindE (get_prop item (js ''name'')) (\<lambda>name.
     bindE (get_prop item (js ''path'')) (\<lambda>path.
     bindE (get_prop item (js ''type'')) (\<lambda>type.
       Inr (obj [(js ''name'', name), (js ''path'', path), (js ''type'', type)]))))"

fun map_items :: "json list \<Rightarrow> js_error + json list" where
  \<comment> \<open>\<open>items.map\<close>, which stops at the first item that throws\<close>
  "map_items [] = Inr []"
| "map_items (item # items) =
     bindE (list_item item) (\<lambda>x. bindE (map_items items) (\<lambda>xs. Inr (x # xs)))"

definition handle_list :: "runtime \<Rightarrow> backend \<Rightarrow> env \<Rightarrow> request \<Rightarrow> gh_request list \<Rightarrow> response io" where
  "handle_list rt be e req log =
     (let dir = or_default (req_dir req) []
      in case listDocs rt be e (Some dir) log of
           (Inl err, log1) \<Rightarrow> (Inl err, log1)
         | (Inr items, log1) \<Rightarrow>
             (case map_items items of
                Inl err \<Rightarrow> (Inl err, log1)
              | Inr mapped \<Rightarrow> (Inr (jsonResponse (obj [(js ''items'', Some (JArr mapped))]) 200), log1)))"

definition get_result :: "runtime \<Rightarrow> json \<Rightarrow> js_error + response" where
  \<comment> \<open>the body of the \<open>try\<close> of the GET handler, after \<open>getFile\<close>\<close>
  "get_result rt file =
     bindE (get_prop file (js ''type'')) (\<lambda>type.
       if type \<noteq> Some (JStr (js ''file'')) then Inr (badRequest (js ''Requested path is not a file''))
       else
         bindE (get_prop file (js ''content'')) (\<lambda>c.
         bindE (case c of Some (JStr str) \<Rightarrow> fromBase64 rt str | _ \<Rightarrow> fromBase64_nonstring rt c) (\<lambda>content.
         bindE (get_prop file (js ''path'')) (\<lambda>path.
         bindE (get_prop file (js ''name'')) (\<lambda>name.
         bindE (get_prop file (js ''sha'')) (\<lambda>sha.
           Inr (jsonResponse (obj [(js ''path'', path), (js ''name'', name), (js ''sha'', sha),
                                   (js ''content'', Some (JStr content))]) 200)))))))"

definition handle_get :: "runtime \<Rightarrow> backend \<Rightarrow> env \<Rightarrow> jsstring \<Rightarrow> gh_request list \<Rightarrow> response io" where
  "handle_get rt be e docPath log =
     (case getFile rt be e docPath log of
        (Inl err, log1) \<Rightarrow> (Inr (error_response rt err (js ''Document not found'')), log1)
      | (Inr file, log1) \<Rightarrow>
          (case get_result rt file of
             Inl err \<Rightarrow> (Inr (error_response rt err (js ''Document not found'')), log1)
           | Inr res \<Rightarrow> (Inr res, log1)))"

definition commit_fields :: "json \<Rightarrow> js_error + json" where
  \<comment> \<open>\<open>{ sha: result.commit.sha, message: result.commit.message }\<close>\<close>
  "commit_fields result =
     bindE (get_prop result (js ''commit'')) (\<lambda>commit.
     bindE (get_prop_u commit (js ''sha'')) (\<lambda>sha.
     bindE (get_prop_u commit (js ''message'')) (\<lambda>message.
       Inr (obj [(js ''sha'', sha), (js ''message'', message)]))))"

definition put_result :: "json \<Rightarrow> js_error + response" where
  "put_result result =
     bindE (get_prop result (js ''content'')) (\<lambda>c.
     bindE (get_prop_u c (js ''path'')) (\<lambda>path.
     bindE (get_prop_u c (js ''name'')) (\<lambda>name.
     bindE (get_prop_u c (js ''sha'')) (\<lambda>sha.
     bindE (commit_fields result) (\<lambda>commit.
       Inr (jsonResponse (obj [(js ''path'', path), (js ''name'', name), (js ''sha'', sha),
                               (js ''commit'', Some commit)]) 200))))))"

definition handle_put ::
  "runtime \<Rightarrow> backend \<Rightarrow> env \<Rightarrow> request \<Rightarrow> jsstring \<Rightarrow> gh_request list \<Rightarrow> response io" where
  "handle_put rt be e req docPath log =
     (case req_json req of
        None \<Rightarrow> (Inr (badRequest (js ''Expected JSON body'')), log)
      | Some body \<Rightarrow>
          (case get_prop body (js ''content'') of
             Inl err \<Rightarrow> (Inl err, log)
           | Inr (Some (JStr content)) \<Rightarrow>
               (let commitMessage =
                      (case get_prop body (js ''message'') of Inr (Some (JStr m)) \<Rightarrow> Some m | _ \<Rightarrow> None)
                in case putFile rt be e docPath content commitMessage log of
                     (Inl err, log1) \<Rightarrow>
                       (Inr (error_response rt err (js ''Repository or branch not found'')), log1)
                   | (Inr result, log1) \<Rightarrow>
                       (case put_result result of
                          Inl err \<Rightarrow>
                            (Inr (error_response rt err (js ''Repository or branch not found'')), log1)
                        | Inr res \<Rightarrow> (Inr res, log1)))
           | Inr _ \<Rightarrow> (Inr (badRequest (js ''Field 'content' (string) is required'')), log)))"

definition delete_result :: "jsstring \<Rightarrow> json \<Rightarrow> js_error + response" where
  "delete_result docPath result =
     bindE (commit_fields result) (\<lambda>commit.
       Inr (jsonResponse (obj [(js ''path'', Some (JStr docPath)), (js ''commit'', Some commit)]) 200))"

definition handle_delete ::
  "runtime \<Rightarrow> backend \<Rightarrow> env \<Rightarrow> request \<Rightarrow> jsstring \<Rightarrow> gh_request list \<Rightarrow> response io" where
  "handle_delete rt be e req docPath log =
     (let body = (case req_json req of None \<Rightarrow> JObj [] | Some b \<Rightarrow> b)
      in case get_prop body (js ''message'') of
           Inl err \<Rightarrow> (Inl err, log)
         | Inr m \<Rightarrow>
             (let commitMessage = (case m of Some (JStr s) \<Rightarrow> Some s | _ \<Rightarrow> None)
              in case deleteFile rt be e docPath commitMessage log of
                   (Inl err, log1) \<Rightarrow> (Inr (error_response rt err (js ''Document not found'')), log1)
                 | (Inr result, log1) \<Rightarrow>
                     (case delete_result docPath result of
                        Inl err \<Rightarrow> (Inr (error_response rt err (js ''Document not found'')), log1)
                      | Inr res \<Rightarrow> (Inr res, log1))))"

definition route :: "runtime \<Rightarrow> backend \<Rightarrow> env \<Rightarrow> request \<Rightarrow> gh_request list \<Rightarrow> response io" where
  \<comment> \<open>the body of the outer \<open>try\<close>, after the authentication check\<close>
  "route rt be e req log =
     (if req_pathname req = js ''/'' \<and> req_method req = js ''GET'' then
        (Inr (jsonResponse (obj [(js ''status'', Some (JStr (js ''ok'')))]) 200), log)
      else if req_pathname req = js ''/docs'' \<and> req_method req = js ''GET'' then
        handle_list rt be e req log
      else if startsWith (req_pathname req) (js ''/docs/'') then
        (case decodeURIComponent rt (drop (length (js ''/docs/'')) (req_pathname req)) of
           Inl err \<Rightarrow> (Inl err, log)
         | Inr docPath \<Rightarrow>
             if req_method req = js ''GET'' then handle_get rt be e docPath log
             else if req_method req = js ''PUT'' then handle_put rt be e req docPath log
             else if req_method req = js ''DELETE'' then handle_delete rt be e req docPath log
             else (Inr (jsonResponse (obj [(js ''error'', Some (JStr (js ''Method not allowed'')))]) 405), log))
      else (Inr (notFound (js ''Not found'')), log))"

definition fetch :: "runtime \<Rightarrow> backend \<Rightarrow> env \<Rightarrow> request \<Rightarrow> gh_request list \<Rightarrow> response \<times> gh_request list" where
  "fetch rt be e req log =
     (case checkAuth req e of
        AuthFail st message \<Rightarrow> (jsonResponse (obj [(js ''error'', Some (JStr message))]) st, log)
      | AuthOk \<Rightarrow>
          (case route rt be e req log of
             (Inr res, log1) \<Rightarrow> (res, log1)
           | (Inl err, log1) \<Rightarrow>
               (jsonResponse
                  (obj [(js ''error'', Some (JStr (js ''Unexpected error''))),
                        (js ''detail'',
                           Some (JStr (or_default (Some (err_message rt err)) (error_string rt err))))])
                  500, log1)))"

section \<open>Calls and backing stores used to state the results\<close>

text \<open>The three calls the client makes for a logical path, as \<open>fetch\<close> receives them.\<close>

definition get_request :: "runtime \<Rightarrow> env \<Rightarrow> jsstring \<Rightarrow> gh_request" where
  "get_request rt e docPath =
     build_request (js ''GET'') (contents_path rt e (buildRepoPath e docPath) @ ref_query rt e) e None"

definition put_request :: "runtime \<Rightarrow> env \<Rightarrow> jsstring \<Rightarrow> json \<Rightarrow> gh_request" where
  "put_request rt e docPath body =
     build_request (js ''PUT'') (contents_path rt e (buildRepoPath e docPath)) e (Some body)"

definition delete_request :: "runtime \<Rightarrow> env \<Rightarrow> jsstring \<Rightarrow> json \<Rightarrow> gh_request" where
  "delete_request rt e docPath body =
     build_request (js ''DELETE'') (contents_path rt e (buildRepoPath e docPath)) e (Some body)"

text \<open>
  The stubbed stores of the repository's tests: an empty store, which answers every read
  with 404 and accepts the write of \<open>test.md\<close>; and a store holding \<open>docs/test.md\<close>.
\<close>

definition not_found_json :: json where
  "not_found_json = JObj [(js ''message'', JStr (js ''Not Found''))]"

definition unexpected_json :: json where
  "unexpected_json = JObj [(js ''message'', JStr (js ''Unexpected call in test''))]"

definition created_json :: json where
  "created_json =
     JObj [(js ''content'', JObj [(js ''path'', JStr (js ''docs/test.md'')),
                                  (js ''name'', JStr (js ''test.md'')),
                                  (js ''sha'', JStr (js ''sha123''))]),
           (js ''commit'', JObj [(js ''sha'', JStr (js ''commitsha'')),
                                 (js ''message'', JStr (js ''Create docs/test.md''))])]"

definition empty_store :: backend where
  "empty_store log req =
     (if gh_method req = js ''GET'' then Response 404 not_found_json
      else if gh_method req = js ''PUT'' then Response 200 created_json
      else Response 500 unexpected_json)"

definition file_json :: json where
  "file_json =
     JObj [(js ''type'', JStr (js ''file'')), (js ''path'', JStr (js ''docs/test.md'')),
           (js ''name'', JStr (js ''test.md'')), (js ''sha'', JStr (js ''sha-file''))]"

definition deleted_json :: json where
  "deleted_json =
     JObj [(js ''commit'', JObj [(js ''sha'', JStr (js ''commitsha'')),
                                 (js ''message'', JStr (js ''Delete docs/test.md''))])]"

definition file_store :: backend where
  "file_store log req =
     (if gh_method req = js ''GET'' then Response 200 file_json
      else if gh_method req = js ''DELETE'' then Response 200 deleted_json
      else if gh_method req = js ''PUT'' then Response 200 created_json
      else Response 500 unexpected_json)"

text \<open>
  A store in which the path is a directory (the contents API answers a read with an
  array), one that lists a directory with one entry, and one that answers the listing
  with a single file object.
\<close>

definition directory_store :: backend where
  "directory_store log req =
     (if gh_method req = js ''GET'' then Response 200 (JArr [])
      else Response 200 created_json)"

definition listed_json :: json where
  "listed_json =
     JObj [(js ''name'', JStr (js ''canon.md'')), (js ''path'', JStr (js ''docs/ftl/canon.md'')),
           (js ''type'', JStr (js ''file''))]"

definition listing_store :: backend where
  "listing_store log req = Response 200 (JArr [listed_json])"

definition single_file_store :: backend where
  "single_file_store log req = Response 200 listed_json"

definition authorized :: "jsstring \<Rightarrow> jsstring \<Rightarrow> jsstring option \<Rightarrow> json option \<Rightarrow> request" where
  \<comment> \<open>a request carrying the token of \<open>test_env\<close>\<close>
  "authorized method pathname dir body =
     \<lparr> req_method = method, req_pathname = pathname, req_dir = dir,
       req_authorization = Some (js ''Bearer api-token''), req_json = body \<rparr>"

definition unauthenticated :: "jsstring \<Rightarrow> jsstring \<Rightarrow> request" where
  "unauthenticated method pathname =
     \<lparr> req_method = method, req_pathname = pathname, req_dir = None,
       req_authorization = None, req_json = None \<rparr>"

section \<open>Properties of the path mapping\<close>

lemma startsWith_append [simp]: "startsWith (p @ s) p"
  by (simp add: startsWith_def)

lemma startsWith_append_Cons [simp]: "startsWith (p @ c # s) (p @ [c])"
  by (simp add: startsWith_def)

lemma normalizeBaseDir_test_env: "normalizeBaseDir test_env = js ''docs''"
  by (simp add: normalizeBaseDir_def test_env_def or_default_def strip_trailing_slashes_def
      js_def slash_def)

text \<open>
  C4. An input that already carries the base directory is prefixed once more:
  with base directory \<open>docs\<close> the logical paths \<open>docs\<close> and \<open>docs/x\<close> are mapped to
  \<open>docs/docs\<close> and \<open>docs/docs/x\<close>, where the repository's tests expect \<open>docs\<close> and
  \<open>docs/x\<close>.
\<close>

theorem buildRepoPath_double_prefix:
  "buildRepoPath test_env (js ''docs'') = js ''docs/docs'' \<and>
   buildRepoPath test_env (js ''docs/x'') = js ''docs/docs/x'' \<and>
   buildRepoPath test_env (buildRepoPath test_env (js ''x'')) \<noteq> buildRepoPath test_env (js ''x'')"
  by (simp add: buildRepoPath_def normalizeBaseDir_test_env strip_leading_slashes_def
      js_def slash_def)

lemma normalizeBaseDir_one_slash:
  assumes "DOCS_BASE_DIR e = Some (b @ [slash])" "b = [] \<or> last b \<noteq> slash"
  shows "normalizeBaseDir e = b"
proof (cases b rule: rev_cases)
  case Nil
  with assms(1) show ?thesis
    by (simp add: normalizeBaseDir_def or_default_def strip_trailing_slashes_def)
next
  case (snoc ys y)
  with assms show ?thesis
    by (simp add: normalizeBaseDir_def or_default_def strip_trailing_slashes_def)
qed

text \<open>
  C5. The repository-to-logical mapping undoes the logical-to-repository mapping up to
  the leading slashes of the logical path, for every configuration. The normalised base
  directory maps to the empty path, and so does a configured base directory written
  with one trailing slash; a path outside the base directory is returned unchanged.
\<close>

theorem logicalPath_buildRepoPath_roundtrip:
  "logicalPathFromGitPath e (buildRepoPath e p) = strip_leading_slashes p \<and>
   logicalPathFromGitPath e (normalizeBaseDir e) = [] \<and>
   (DOCS_BASE_DIR e = Some (b @ [slash]) \<and> (b = [] \<or> last b \<noteq> slash)
      \<longrightarrow> logicalPathFromGitPath e (b @ [slash]) = []) \<and>
   (g \<noteq> normalizeBaseDir e \<and> \<not> startsWith g (normalizeBaseDir e @ [slash])
      \<longrightarrow> logicalPathFromGitPath e g = g)"
proof (intro conjI impI)
  show "logicalPathFromGitPath e (buildRepoPath e p) = strip_leading_slashes p"
  proof (cases "p = [] \<or> p = [slash]")
    case True
    then show ?thesis
      by (auto simp: logicalPathFromGitPath_def buildRepoPath_def strip_leading_slashes_def)
  next
    case False
    then show ?thesis
      by (simp add: logicalPathFromGitPath_def buildRepoPath_def Let_def)
  qed
next
  show "logicalPathFromGitPath e (normalizeBaseDir e) = []"
    by (simp add: logicalPathFromGitPath_def)
next
  assume "DOCS_BASE_DIR e = Some (b @ [slash]) \<and> (b = [] \<or> last b \<noteq> slash)"
  then show "logicalPathFromGitPath e (b @ [slash]) = []"
    by (auto simp: logicalPathFromGitPath_def normalizeBaseDir_one_slash)
next
  assume "g \<noteq> normalizeBaseDir e \<and> \<not> startsWith g (normalizeBaseDir e @ [slash])"
  then show "logicalPathFromGitPath e g = g"
    by (simp add: logicalPathFromGitPath_def)
qed

theorem logicalPath_buildRepoPath_roundtrip_witness:
  "logicalPathFromGitPath test_env (buildRepoPath test_env (js ''/a/b.md'')) =
     strip_leading_slashes (js ''/a/b.md'') \<and>
   strip_leading_slashes (js ''/a/b.md'') = js ''a/b.md'' \<and>
   logicalPathFromGitPath test_env (normalizeBaseDir test_env) = [] \<and>
   DOCS_BASE_DIR (test_env\<lparr>DOCS_BASE_DIR := Some (js ''docs'' @ [slash])\<rparr>) = Some (js ''docs'' @ [slash]) \<and>
   (js ''docs'' = [] \<or> last (js ''docs'') \<noteq> slash) \<and>
   logicalPathFromGitPath (test_env\<lparr>DOCS_BASE_DIR := Some (js ''docs'' @ [slash])\<rparr>)
     (js ''docs'' @ [slash]) = [] \<and>
   js ''other/x.md'' \<noteq> normalizeBaseDir test_env \<and>
   \<not> startsWith (js ''other/x.md'') (normalizeBaseDir test_env @ [slash]) \<and>
   logicalPathFromGitPath test_env (js ''other/x.md'') = js ''other/x.md''"
proof -
  let ?e = "test_env\<lparr>DOCS_BASE_DIR := Some (js ''docs'' @ [slash])\<rparr>"
  have h: "js ''other/x.md'' \<noteq> normalizeBaseDir test_env \<and>
           \<not> startsWith (js ''other/x.md'') (normalizeBaseDir test_env @ [slash])"
    by (simp add: normalizeBaseDir_test_env startsWith_def js_def slash_def)
  have s: "strip_leading_slashes (js ''/a/b.md'') = js ''a/b.md''"
    by (simp add: strip_leading_slashes_def js_def slash_def)
  have t: "DOCS_BASE_DIR ?e = Some (js ''docs'' @ [slash]) \<and>
           (js ''docs'' = [] \<or> last (js ''docs'') \<noteq> slash)"
    by (simp add: js_def slash_def)
  note r = logicalPath_buildRepoPath_roundtrip [where e = test_env and p = "js ''/a/b.md''"
      and g = "js ''other/x.md''"]
  have 1: "logicalPathFromGitPath test_env (buildRepoPath test_env (js ''/a/b.md'')) =
     strip_leading_slashes (js ''/a/b.md'')"
    by (rule r [THEN conjunct1])
  have 2: "logicalPathFromGitPath test_env (normalizeBaseDir test_env) = []"
    by (rule r [THEN conjunct2, THEN conjunct1])
  have 3: "logicalPathFromGitPath ?e (js ''docs'' @ [slash]) = []"
    by (rule logicalPath_buildRepoPath_roundtrip [where e = ?e and b = "js ''docs''",
          THEN conjunct2, THEN conjunct2, THEN conjunct1, rule_format, OF t])
  have 4: "logicalPathFromGitPath test_env (js ''other/x.md'') = js ''other/x.md''"
    by (rule r [THEN conjunct2, THEN conjunct2, THEN conjunct2, rule_format, OF h])
  from 1 s 2 t h 3 4 show ?thesis
    by (intro conjI) simp_all
qed

section \<open>Evaluation and the client's calls\<close>

lemmas eval_defs =
  fetch_def route_def checkAuth_def handle_put_def handle_delete_def handle_list_def handle_get_def
  putFile_def deleteFile_def listDocs_def getFile_def githubRequest_def build_request_def
  get_request_def put_request_def delete_request_def put_body_def delete_body_def
  contents_path_def ref_query_def GITHUB_API_BASE_def buildRepoPath_def normalizeBaseDir_def
  strip_trailing_slashes_def strip_leading_slashes_def or_default_def startsWith_def
  decodeURIComponent_def toBase64_def btoa_def b64_char_def b64_code_def pad_def
  put_result_def delete_result_def commit_fields_def list_item_def bindE_def obj_def
  jsonResponse_def notFound_def badRequest_def error_response_def error_of_response_def
  response_ok_def workers_def percent_encode_ascii_def unreserved_def hex_digit_def
  test_env_def authorized_def empty_store_def file_store_def directory_store_def
  listing_store_def single_file_store_def
  not_found_json_def unexpected_json_def created_json_def file_json_def deleted_json_def
  listed_json_def js_def slash_def percent_def Let_def

lemma snd_githubRequest [simp]:
  "snd (githubRequest rt be m p e b log) = log @ [build_request m p e b]"
  by (simp add: githubRequest_def Let_def split: fetch_outcome.splits)

lemma githubRequest_ok:
  "be log (build_request m p e b) = Response st v \<Longrightarrow> response_ok st \<Longrightarrow>
   githubRequest rt be m p e b log = (Inr v, log @ [build_request m p e b])"
  by (simp add: githubRequest_def)

lemma githubRequest_not_ok:
  "be log (build_request m p e b) = Response st v \<Longrightarrow> \<not> response_ok st \<Longrightarrow>
   githubRequest rt be m p e b log = (Inl (error_of_response rt st v), log @ [build_request m p e b])"
  by (simp add: githubRequest_def)

lemma githubRequest_rejected:
  "be log (build_request m p e b) = Rejected \<Longrightarrow>
   githubRequest rt be m p e b log = (Inl FetchRejected, log @ [build_request m p e b])"
  by (simp add: githubRequest_def)

lemma err_status_error_of_response [simp]:
  "err_status (error_of_response rt st v) = Some st"
  by (simp add: error_of_response_def Let_def)

lemma not_ok_404 [simp]: "\<not> response_ok 404"
  by (simp add: response_ok_def)

lemma getFile_eq:
  "getFile rt be e docPath log = githubRequest rt be (js ''GET'')
     (contents_path rt e (buildRepoPath e docPath) @ ref_query rt e) e None log"
  by (simp add: getFile_def)


lemma toBase64_hello: "toBase64 workers (js ''Hello world'') = Inr (js ''SGVsbG8gd29ybGQ='')"
  by (simp add: toBase64_def workers_def btoa_def js_def b64_char_def b64_code_def pad_def)

lemma js_method_distinct:
  "js ''DELETE'' \<noteq> js ''GET''" "js ''DELETE'' \<noteq> js ''PUT''" "js ''PUT'' \<noteq> js ''GET''"
  by (simp_all add: js_def)

lemma checkAuth_status: "checkAuth req e = AuthFail st m \<Longrightarrow> st = 500 \<or> st = 401"
  by (auto simp: checkAuth_def Let_def split: if_splits option.splits)

lemma error_response_status: "res_status (error_response rt err m) \<noteq> 400"
  by (simp add: error_response_def notFound_def jsonResponse_def)

lemma delete_result_status: "delete_result docPath result = Inr res \<Longrightarrow> res_status res = 200"
  by (auto simp: delete_result_def bindE_def jsonResponse_def split: sum.splits)

lemma handle_delete_status:
  "handle_delete rt be e req docPath log = (Inr res, log1) \<Longrightarrow> res_status res \<noteq> 400"
  by (auto simp: handle_delete_def Let_def error_response_status
      dest!: delete_result_status split: sum.splits prod.splits)

lemma route_delete:
  "req_method req = js ''DELETE'' \<Longrightarrow> startsWith (req_pathname req) (js ''/docs/'') \<Longrightarrow>
   decodeURIComponent rt (drop (length (js ''/docs/'')) (req_pathname req)) = Inr docPath \<Longrightarrow>
   route rt be e req log = handle_delete rt be e req docPath log"
  by (simp add: route_def js_method_distinct)

lemma route_delete_status:
  assumes "req_method req = js ''DELETE''" "route rt be e req log = (Inr res, log1)"
  shows "res_status res \<noteq> 400"
proof (cases "startsWith (req_pathname req) (js ''/docs/'')")
  case True
  show ?thesis
  proof (cases "decodeURIComponent rt (drop (length (js ''/docs/'')) (req_pathname req))")
    case (Inl err)
    with assms True show ?thesis
      by (simp add: route_def js_method_distinct)
  next
    case (Inr docPath)
    with assms True show ?thesis
      by (simp add: route_delete handle_delete_status)
  qed
next
  case False
  with assms show ?thesis
    by (auto simp: route_def js_method_distinct notFound_def jsonResponse_def)
qed


lemma fetch_route_log:
  "checkAuth req e = AuthOk \<Longrightarrow> snd (fetch rt be e req log) = snd (route rt be e req log)"
  by (auto simp: fetch_def split: sum.splits prod.splits)

lemma buildRepoPath_test_md: "buildRepoPath test_env (js ''test.md'') = js ''docs/test.md''"
  by (simp add: buildRepoPath_def normalizeBaseDir_test_env strip_leading_slashes_def js_def slash_def)

lemma branch_test_env: "GITHUB_BRANCH test_env = js ''main''"
  by (simp add: test_env_def)

section \<open>Upsert and delete protocols\<close>

text \<open>
  C1. For a content that \<open>toBase64\<close> accepts, \<open>putFile\<close> first issues the read of the
  path and then, depending on its answer: on 404 exactly one write, whose body has no
  \<open>sha\<close> and the message \<open>Create <repositoryPath>\<close> unless the caller gave one; on a
  success whose \<open>sha\<close> property is truthy exactly one write whose body carries that
  \<open>sha\<close>, with the default message \<open>Update <repositoryPath>\<close>; on a success with a
  value other than \<open>null\<close> whose \<open>sha\<close> property is missing or falsy the same write
  as on 404; on any other failure of the read (a status that is not 404, a rejected
  \<open>fetch\<close>) the error is returned and no write is issued. The last two conjuncts spell
  out the two calls.
\<close>

theorem putFile_upsert:
  assumes enc: "toBase64 rt content = Inr encoded"
  shows
    "(be log (get_request rt e docPath) = Response 404 cur \<longrightarrow>
        snd (putFile rt be e docPath content msg log) =
          log @ [get_request rt e docPath,
                 put_request rt e docPath
                   (JObj [(js ''message'',
                             JStr (case msg of
                                     None \<Rightarrow> js ''Create '' @ buildRepoPath e docPath
                                   | Some m \<Rightarrow> if m = [] then js ''Create '' @ buildRepoPath e docPath else m)),
                          (js ''content'', JStr encoded),
                          (js ''branch'', JStr (GITHUB_BRANCH e))])])
   \<and> (be log (get_request rt e docPath) = Response st cur \<and> 200 \<le> st \<and> st \<le> 299 \<and>
        get_prop cur (js ''sha'') = Inr (Some s) \<and> truthy (Some s) \<longrightarrow>
        snd (putFile rt be e docPath content msg log) =
          log @ [get_request rt e docPath,
                 put_request rt e docPath
                   (JObj [(js ''message'',
                             JStr (case msg of
                                     None \<Rightarrow> js ''Update '' @ buildRepoPath e docPath
                                   | Some m \<Rightarrow> if m = [] then js ''Update '' @ buildRepoPath e docPath else m)),
                          (js ''content'', JStr encoded),
                          (js ''branch'', JStr (GITHUB_BRANCH e)),
                          (js ''sha'', s)])])
   \<and> (be log (get_request rt e docPath) = Response st cur \<and> 200 \<le> st \<and> st \<le> 299 \<and>
        get_prop cur (js ''sha'') = Inr sha \<and> \<not> truthy sha \<longrightarrow>
        snd (putFile rt be e docPath content msg log) =
          log @ [get_request rt e docPath,
                 put_request rt e docPath
                   (JObj [(js ''message'',
                             JStr (case msg of
                                     None \<Rightarrow> js ''Create '' @ buildRepoPath e docPath
                                   | Some m \<Rightarrow> if m = [] then js ''Create '' @ buildRepoPath e docPath else m)),
                          (js ''content'', JStr encoded),
                          (js ''branch'', JStr (GITHUB_BRANCH e))])])
   \<and> (be log (get_request rt e docPath) = Response st cur \<and> \<not> (200 \<le> st \<and> st \<le> 299) \<and> st \<noteq> 404 \<longrightarrow>
        (\<exists>m. putFile rt be e docPath content msg log =
               (Inl (GithubError st m cur), log @ [get_request rt e docPath])))
   \<and> (be log (get_request rt e docPath) = Rejected \<longrightarrow>
        putFile rt be e docPath content msg log = (Inl FetchRejected, log @ [get_request rt e docPath]))
   \<and> get_request rt e docPath =
        \<lparr> gh_method = js ''GET'',
          gh_url = js ''https://api.github.com'' @ js ''/repos/'' @ GITHUB_OWNER e @ [slash] @ GITHUB_REPO e
                   @ js ''/contents/'' @ encodeURIComponent rt (buildRepoPath e docPath)
                   @ js ''?ref='' @ encodeURIComponent rt (GITHUB_BRANCH e),
          gh_headers = [(js ''Authorization'', js ''Bearer '' @ GITHUB_TOKEN e),
                        (js ''Accept'', js ''application/vnd.github+json''),
                        (js ''User-Agent'', js ''cloudflare-docstore-worker'')],
          gh_body = None \<rparr>
   \<and> put_request rt e docPath body =
        \<lparr> gh_method = js ''PUT'',
          gh_url = js ''https://api.github.com'' @ js ''/repos/'' @ GITHUB_OWNER e @ [slash] @ GITHUB_REPO e
                   @ js ''/contents/'' @ encodeURIComponent rt (buildRepoPath e docPath),
          gh_headers = [(js ''Authorization'', js ''Bearer '' @ GITHUB_TOKEN e),
                        (js ''Accept'', js ''application/vnd.github+json''),
                        (js ''User-Agent'', js ''cloudflare-docstore-worker''),
                        (js ''Content-Type'', js ''application/json'')],
          gh_body = Some body \<rparr>"
proof (intro conjI impI)
  let ?g = "get_request rt e docPath"
  show "?g = \<lparr> gh_method = js ''GET'',
          gh_url = js ''https://api.github.com'' @ js ''/repos/'' @ GITHUB_OWNER e @ [slash] @ GITHUB_REPO e
                   @ js ''/contents/'' @ encodeURIComponent rt (buildRepoPath e docPath)
                   @ js ''?ref='' @ encodeURIComponent rt (GITHUB_BRANCH e),
          gh_headers = [(js ''Authorization'', js ''Bearer '' @ GITHUB_TOKEN e),
                        (js ''Accept'', js ''application/vnd.github+json''),
                        (js ''User-Agent'', js ''cloudflare-docstore-worker'')],
          gh_body = None \<rparr>"
    by (simp add: get_request_def build_request_def contents_path_def ref_query_def GITHUB_API_BASE_def)
  show "put_request rt e docPath body =
        \<lparr> gh_method = js ''PUT'',
          gh_url = js ''https://api.github.com'' @ js ''/repos/'' @ GITHUB_OWNER e @ [slash] @ GITHUB_REPO e
                   @ js ''/contents/'' @ encodeURIComponent rt (buildRepoPath e docPath),
          gh_headers = [(js ''Authorization'', js ''Bearer '' @ GITHUB_TOKEN e),
                        (js ''Accept'', js ''application/vnd.github+json''),
                        (js ''User-Agent'', js ''cloudflare-docstore-worker''),
                        (js ''Content-Type'', js ''application/json'')],
          gh_body = Some body \<rparr>"
    by (simp add: put_request_def build_request_def contents_path_def GITHUB_API_BASE_def)
next
  assume "be log (get_request rt e docPath) = Response st cur \<and> \<not> (200 \<le> st \<and> st \<le> 299) \<and> st \<noteq> 404"
  then have "putFile rt be e docPath content msg log =
      (Inl (error_of_response rt st cur), log @ [get_request rt e docPath])"
    by (simp add: putFile_def getFile_eq get_request_def githubRequest_not_ok response_ok_def)
  moreover have "\<exists>m. error_of_response rt st cur = GithubError st m cur"
    by (simp add: error_of_response_def Let_def)
  ultimately
  show "\<exists>m. putFile rt be e docPath content msg log =
               (Inl (GithubError st m cur), log @ [get_request rt e docPath])"
    by auto
qed (use enc in \<open>auto simp: putFile_def getFile_eq get_request_def put_request_def
       githubRequest_not_ok githubRequest_ok githubRequest_rejected Let_def
       put_body_def obj_def or_default_def response_ok_def split: option.splits\<close>)

theorem putFile_upsert_witness:
  "toBase64 workers (js ''Hello world'') = Inr (js ''SGVsbG8gd29ybGQ='') \<and>
   empty_store [] (get_request workers test_env (js ''test.md'')) = Response 404 not_found_json \<and>
   snd (putFile workers empty_store test_env (js ''test.md'') (js ''Hello world'') None []) =
     [get_request workers test_env (js ''test.md''),
      put_request workers test_env (js ''test.md'')
        (JObj [(js ''message'', JStr (js ''Create docs/test.md'')),
               (js ''content'', JStr (js ''SGVsbG8gd29ybGQ='')),
               (js ''branch'', JStr (js ''main''))])] \<and>
   file_store [] (get_request workers test_env (js ''test.md'')) = Response 200 file_json \<and>
   get_prop file_json (js ''sha'') = Inr (Some (JStr (js ''sha-file''))) \<and>
   truthy (Some (JStr (js ''sha-file''))) \<and>
   snd (putFile workers file_store test_env (js ''test.md'') (js ''Hello world'') None []) =
     [get_request workers test_env (js ''test.md''),
      put_request workers test_env (js ''test.md'')
        (JObj [(js ''message'', JStr (js ''Update docs/test.md'')),
               (js ''content'', JStr (js ''SGVsbG8gd29ybGQ='')),
               (js ''branch'', JStr (js ''main'')),
               (js ''sha'', JStr (js ''sha-file''))])] \<and>
   map gh_method (snd (putFile workers file_store test_env (js ''test.md'') (js ''Hello world'') None [])) =
     [js ''GET'', js ''PUT''] \<and>
   map gh_body (snd (putFile workers file_store test_env (js ''test.md'') (js ''Hello world'') None [])) =
     [None, Some (JObj [(js ''message'', JStr (js ''Update docs/test.md'')),
                        (js ''content'', JStr (js ''SGVsbG8gd29ybGQ='')),
                        (js ''branch'', JStr (js ''main'')),
                        (js ''sha'', JStr (js ''sha-file''))])]"
proof -
  have a: "empty_store [] (get_request workers test_env (js ''test.md'')) = Response 404 not_found_json"
    by (simp add: empty_store_def get_request_def build_request_def)
  have b: "file_store [] (get_request workers test_env (js ''test.md'')) = Response 200 file_json"
    by (simp add: file_store_def get_request_def build_request_def)
  have c: "(200::nat) \<le> 200 \<and> (200::nat) \<le> 299"
    by simp
  have d: "get_prop file_json (js ''sha'') = Inr (Some (JStr (js ''sha-file'')))"
    by (simp add: file_json_def js_def)
  have t: "truthy (Some (JStr (js ''sha-file'')))"
    by (simp add: js_def)
  have mc: "js ''Create '' @ js ''docs/test.md'' = js ''Create docs/test.md''"
    by (simp add: js_def)
  have mu: "js ''Update '' @ js ''docs/test.md'' = js ''Update docs/test.md''"
    by (simp add: js_def)
  note i1 = putFile_upsert [OF toBase64_hello, where be = empty_store and log = "[]" and e = test_env
      and docPath = "js ''test.md''" and cur = not_found_json and msg = None]
  note i2 = putFile_upsert [OF toBase64_hello, where be = file_store and log = "[]" and e = test_env
      and docPath = "js ''test.md''" and cur = file_json and msg = None and st = 200
      and s = "JStr (js ''sha-file'')"]
  have 1: "snd (putFile workers empty_store test_env (js ''test.md'') (js ''Hello world'') None []) =
     [get_request workers test_env (js ''test.md''),
      put_request workers test_env (js ''test.md'')
        (JObj [(js ''message'', JStr (js ''Create docs/test.md'')),
               (js ''content'', JStr (js ''SGVsbG8gd29ybGQ='')),
               (js ''branch'', JStr (js ''main''))])]"
    using i1 [THEN conjunct1, rule_format, OF a]
    by (simp only: append_Nil buildRepoPath_test_md branch_test_env mc option.case)
  have 2: "snd (putFile workers file_store test_env (js ''test.md'') (js ''Hello world'') None []) =
     [get_request workers test_env (js ''test.md''),
      put_request workers test_env (js ''test.md'')
        (JObj [(js ''message'', JStr (js ''Update docs/test.md'')),
               (js ''content'', JStr (js ''SGVsbG8gd29ybGQ='')),
               (js ''branch'', JStr (js ''main'')),
               (js ''sha'', JStr (js ''sha-file''))])]"
    using i2 [THEN conjunct2, THEN conjunct1, rule_format,
      OF conjI [OF b conjI [OF c [THEN conjunct1] conjI [OF c [THEN conjunct2] conjI [OF d t]]]]]
    by (simp only: append_Nil buildRepoPath_test_md branch_test_env mu option.case)
  note pins = i2 [THEN conjunct2, THEN conjunct2, THEN conjunct2, THEN conjunct2, THEN conjunct2]
  have 3: "map gh_method (snd (putFile workers file_store test_env (js ''test.md'') (js ''Hello world'') None [])) =
     [js ''GET'', js ''PUT'']"
    by (simp only: 2 list.map pins [THEN conjunct1] pins [THEN conjunct2] gh_request.simps)
  have 4: "map gh_body (snd (putFile workers file_store test_env (js ''test.md'') (js ''Hello world'') None [])) =
     [None, Some (JObj [(js ''message'', JStr (js ''Update docs/test.md'')),
                        (js ''content'', JStr (js ''SGVsbG8gd29ybGQ='')),
                        (js ''branch'', JStr (js ''main'')),
                        (js ''sha'', JStr (js ''sha-file''))])]"
    by (simp only: 2 list.map pins [THEN conjunct1] pins [THEN conjunct2] gh_request.simps)
  from toBase64_hello a b d t 1 2 3 4 show ?thesis
    by (intro conjI)
qed

text \<open>
  C1, as first stated, fails where the read succeeds without a revision marker: for a
  path that is a directory the store answers the read with an array, and \<open>putFile\<close>
  writes with the message \<open>Create docs/notes\<close> and without \<open>sha\<close>.
\<close>

theorem putFile_directory_counterexample:
  "getFile workers directory_store test_env (js ''notes'') [] =
     (Inr (JArr []), [get_request workers test_env (js ''notes'')]) \<and>
   snd (putFile workers directory_store test_env (js ''notes'') (js ''Hello world'') None []) =
     [get_request workers test_env (js ''notes''),
      put_request workers test_env (js ''notes'')
        (JObj [(js ''message'', JStr (js ''Create docs/notes'')),
               (js ''content'', JStr (js ''SGVsbG8gd29ybGQ='')),
               (js ''branch'', JStr (js ''main''))])] \<and>
   map gh_method (snd (putFile workers directory_store test_env (js ''notes'') (js ''Hello world'') None [])) =
     [js ''GET'', js ''PUT''] \<and>
   map gh_body (snd (putFile workers directory_store test_env (js ''notes'') (js ''Hello world'') None [])) =
     [None, Some (JObj [(js ''message'', JStr (js ''Create docs/notes'')),
                        (js ''content'', JStr (js ''SGVsbG8gd29ybGQ='')),
                        (js ''branch'', JStr (js ''main''))])]"
  by (simp add: eval_defs)




section \<open>The router\<close>

text \<open>
  C3. \<open>GET /\<close> is served whatever the credentials. Every other request is answered
  with 500 when the server-side token is not configured, and with 401 when its
  \<open>Authorization\<close> header is not exactly \<open>Bearer <token>\<close>; in both cases no call
  to the backing store is made. A request carrying exactly that header passes the check.
\<close>

theorem fetch_auth_gate:
  "(req_pathname req = js ''/'' \<and> req_method req = js ''GET'' \<longrightarrow>
      fetch rt be e req log =
        (jsonResponse (obj [(js ''status'', Some (JStr (js ''ok'')))]) 200, log))
   \<and> (\<not> (req_pathname req = js ''/'' \<and> req_method req = js ''GET'') \<and>
        (DOCSTORE_API_TOKEN e = None \<or> DOCSTORE_API_TOKEN e = Some []) \<longrightarrow>
      fetch rt be e req log =
        (jsonResponse (obj [(js ''error'', Some (JStr (js ''DOCSTORE_API_TOKEN is not configured'')))]) 500,
         log))
   \<and> (\<not> (req_pathname req = js ''/'' \<and> req_method req = js ''GET'') \<and>
        DOCSTORE_API_TOKEN e = Some token \<and> token \<noteq> [] \<and>
        req_authorization req \<noteq> Some (js ''Bearer '' @ token) \<longrightarrow>
      fetch rt be e req log =
        (jsonResponse (obj [(js ''error'', Some (JStr (js ''Unauthorized'')))]) 401, log))
   \<and> (DOCSTORE_API_TOKEN e = Some token \<and> token \<noteq> [] \<and>
        req_authorization req = Some (js ''Bearer '' @ token) \<longrightarrow>
      checkAuth req e = AuthOk)"
proof (intro conjI impI)
  assume "req_pathname req = js ''/'' \<and> req_method req = js ''GET''"
  then show "fetch rt be e req log =
        (jsonResponse (obj [(js ''status'', Some (JStr (js ''ok'')))]) 200, log)"
    by (simp add: fetch_def checkAuth_def route_def)
next
  assume "\<not> (req_pathname req = js ''/'' \<and> req_method req = js ''GET'') \<and>
        (DOCSTORE_API_TOKEN e = None \<or> DOCSTORE_API_TOKEN e = Some [])"
  then show "fetch rt be e req log =
        (jsonResponse (obj [(js ''error'', Some (JStr (js ''DOCSTORE_API_TOKEN is not configured'')))]) 500,
         log)"
    by (auto simp: fetch_def checkAuth_def)
next
  assume a: "\<not> (req_pathname req = js ''/'' \<and> req_method req = js ''GET'') \<and>
        DOCSTORE_API_TOKEN e = Some token \<and> token \<noteq> [] \<and>
        req_authorization req \<noteq> Some (js ''Bearer '' @ token)"
  have "or_default (req_authorization req) [] \<noteq> js ''Bearer '' @ token"
    using a by (auto simp: or_default_def js_def split: option.splits)
  then have "checkAuth req e = AuthFail 401 (js ''Unauthorized'')"
    using a by (auto simp: checkAuth_def Let_def)
  then show "fetch rt be e req log =
        (jsonResponse (obj [(js ''error'', Some (JStr (js ''Unauthorized'')))]) 401, log)"
    by (simp add: fetch_def)
next
  assume "DOCSTORE_API_TOKEN e = Some token \<and> token \<noteq> [] \<and>
        req_authorization req = Some (js ''Bearer '' @ token)"
  then show "checkAuth req e = AuthOk"
    by (simp add: checkAuth_def or_default_def js_def)
qed

theorem fetch_auth_gate_witness:
  "fetch workers empty_store test_env (unauthenticated (js ''GET'') (js ''/'')) [] =
     (jsonResponse (obj [(js ''status'', Some (JStr (js ''ok'')))]) 200, []) \<and>
   fetch workers empty_store (test_env\<lparr>DOCSTORE_API_TOKEN := None\<rparr>)
       (authorized (js ''GET'') (js ''/docs'') None None) [] =
     (jsonResponse (obj [(js ''error'', Some (JStr (js ''DOCSTORE_API_TOKEN is not configured'')))]) 500, []) \<and>
   fetch workers empty_store test_env (unauthenticated (js ''PUT'') (js ''/docs/test.md'')) [] =
     (jsonResponse (obj [(js ''error'', Some (JStr (js ''Unauthorized'')))]) 401, []) \<and>
   checkAuth (authorized (js ''PUT'') (js ''/docs/test.md'') None None) test_env = AuthOk"
proof -
  have m: "js ''PUT'' \<noteq> js ''GET''" "js ''/docs'' \<noteq> js ''/''"
    by (simp_all add: js_def)
  have t: "DOCSTORE_API_TOKEN test_env = Some (js ''api-token'')" "js ''api-token'' \<noteq> []"
    by (simp_all add: test_env_def js_def)
  have b: "js ''Bearer api-token'' = js ''Bearer '' @ js ''api-token''"
    by (simp add: js_def)
  have h: "req_pathname (unauthenticated (js ''GET'') (js ''/'')) = js ''/'' \<and>
           req_method (unauthenticated (js ''GET'') (js ''/'')) = js ''GET''"
    by (simp add: unauthenticated_def)
  have p2: "\<not> (req_pathname (authorized (js ''GET'') (js ''/docs'') None None) = js ''/'' \<and>
               req_method (authorized (js ''GET'') (js ''/docs'') None None) = js ''GET'') \<and>
            (DOCSTORE_API_TOKEN (test_env\<lparr>DOCSTORE_API_TOKEN := None\<rparr>) = None \<or>
             DOCSTORE_API_TOKEN (test_env\<lparr>DOCSTORE_API_TOKEN := None\<rparr>) = Some [])"
    using m by (simp add: authorized_def)
  have p3: "\<not> (req_pathname (unauthenticated (js ''PUT'') (js ''/docs/test.md'')) = js ''/'' \<and>
               req_method (unauthenticated (js ''PUT'') (js ''/docs/test.md'')) = js ''GET'') \<and>
            DOCSTORE_API_TOKEN test_env = Some (js ''api-token'') \<and> js ''api-token'' \<noteq> [] \<and>
            req_authorization (unauthenticated (js ''PUT'') (js ''/docs/test.md''))
              \<noteq> Some (js ''Bearer '' @ js ''api-token'')"
    using m t by (simp add: unauthenticated_def)
  have p4: "DOCSTORE_API_TOKEN test_env = Some (js ''api-token'') \<and> js ''api-token'' \<noteq> [] \<and>
            req_authorization (authorized (js ''PUT'') (js ''/docs/test.md'') None None)
              = Some (js ''Bearer '' @ js ''api-token'')"
    using t b by (simp add: authorized_def)
  have 1: "fetch workers empty_store test_env (unauthenticated (js ''GET'') (js ''/'')) [] =
     (jsonResponse (obj [(js ''status'', Some (JStr (js ''ok'')))]) 200, [])"
    by (rule fetch_auth_gate [THEN conjunct1, rule_format, OF h])
  have 2: "fetch workers empty_store (test_env\<lparr>DOCSTORE_API_TOKEN := None\<rparr>)
       (authorized (js ''GET'') (js ''/docs'') None None) [] =
     (jsonResponse (obj [(js ''error'', Some (JStr (js ''DOCSTORE_API_TOKEN is not configured'')))]) 500, [])"
    by (rule fetch_auth_gate [THEN conjunct2, THEN conjunct1, rule_format, OF p2])
  have 3: "fetch workers empty_store test_env (unauthenticated (js ''PUT'') (js ''/docs/test.md'')) [] =
     (jsonResponse (obj [(js ''error'', Some (JStr (js ''Unauthorized'')))]) 401, [])"
    by (rule fetch_auth_gate [THEN conjunct2, THEN conjunct2, THEN conjunct1, rule_format, OF p3])
  have 4: "checkAuth (authorized (js ''PUT'') (js ''/docs/test.md'') None None) test_env = AuthOk"
    by (rule fetch_auth_gate [THEN conjunct2, THEN conjunct2, THEN conjunct2, rule_format, OF p4])
  from 1 2 3 4 show ?thesis
    by (intro conjI)
qed

text \<open>
  C8. When the backing store answers the listing with an array, \<open>listDocs\<close> returns
  its elements; when it answers with any other value, \<open>listDocs\<close> returns the
  one-element sequence of that value.
\<close>

theorem listDocs_sequence:
  "(be log (get_request rt e (or_default dirPath [])) = Response st (JArr items) \<and> response_ok st \<longrightarrow>
      listDocs rt be e dirPath log = (Inr items, log @ [get_request rt e (or_default dirPath [])]))
   \<and> (be log (get_request rt e (or_default dirPath [])) = Response st res \<and> response_ok st \<and>
        (\<forall>xs. res \<noteq> JArr xs) \<longrightarrow>
      listDocs rt be e dirPath log = (Inr [res], log @ [get_request rt e (or_default dirPath [])]))"
  by (auto simp: listDocs_def get_request_def githubRequest_ok split: json.splits)

theorem listDocs_sequence_witness:
  "listing_store [] (get_request workers test_env (or_default (Some (js ''ftl'')) [])) =
     Response 200 (JArr [listed_json]) \<and>
   response_ok 200 \<and>
   listDocs workers listing_store test_env (Some (js ''ftl'')) [] =
     (Inr [listed_json], [get_request workers test_env (or_default (Some (js ''ftl'')) [])]) \<and>
   single_file_store [] (get_request workers test_env (or_default (Some (js ''ftl'')) [])) =
     Response 200 listed_json \<and>
   (\<forall>xs. listed_json \<noteq> JArr xs) \<and>
   listDocs workers single_file_store test_env (Some (js ''ftl'')) [] =
     (Inr [listed_json], [get_request workers test_env (or_default (Some (js ''ftl'')) [])]) \<and>
   fetch workers single_file_store test_env
       (authorized (js ''GET'') (js ''/docs'') (Some (js ''ftl'')) None) [] =
     (jsonResponse
        (JObj [(js ''items'',
                JArr [JObj [(js ''name'', JStr (js ''canon.md'')),
                            (js ''path'', JStr (js ''docs/ftl/canon.md'')),
                            (js ''type'', JStr (js ''file''))]])]) 200,
      [get_request workers test_env (js ''ftl'')])"
proof -
  let ?g = "get_request workers test_env (or_default (Some (js ''ftl'')) [])"
  have a: "listing_store [] ?g = Response 200 (JArr [listed_json]) \<and> response_ok 200"
    by (simp add: listing_store_def response_ok_def)
  have b: "single_file_store [] ?g = Response 200 listed_json \<and> response_ok 200 \<and>
           (\<forall>xs. listed_json \<noteq> JArr xs)"
    by (simp add: single_file_store_def response_ok_def listed_json_def)
  have 1: "listDocs workers listing_store test_env (Some (js ''ftl'')) [] = (Inr [listed_json], [?g])"
    using listDocs_sequence [where be = listing_store and log = "[]" and rt = workers and e = test_env
      and dirPath = "Some (js ''ftl'')", THEN conjunct1, rule_format, OF a]
    by (simp only: append_Nil)
  have 2: "listDocs workers single_file_store test_env (Some (js ''ftl'')) [] = (Inr [listed_json], [?g])"
    using listDocs_sequence [where be = single_file_store and log = "[]" and rt = workers
      and e = test_env and dirPath = "Some (js ''ftl'')", THEN conjunct2, rule_format, OF b]
    by (simp only: append_Nil)
  have 3: "fetch workers single_file_store test_env
       (authorized (js ''GET'') (js ''/docs'') (Some (js ''ftl'')) None) [] =
     (jsonResponse
        (JObj [(js ''items'',
                JArr [JObj [(js ''name'', JStr (js ''canon.md'')),
                            (js ''path'', JStr (js ''docs/ftl/canon.md'')),
                            (js ''type'', JStr (js ''file''))]])]) 200,
      [get_request workers test_env (js ''ftl'')])"
    by (simp add: eval_defs)
  from a b 1 2 3 show ?thesis
    by (intro conjI) simp_all
qed

text \<open>
  C10. A \<open>DELETE\<close> request is never answered with 400. When \<open>request.json()\<close>
  rejects, the handler behaves as for the body \<open>{}\<close>: an authenticated request makes
  the calls of \<open>deleteFile\<close> without a commit message, and the body of the delete
  call issued after the read has returned a value holds the message
  \<open>Delete <repositoryPath>\<close>, the \<open>sha\<close> read and the branch.
\<close>

theorem delete_without_json_body:
  "(req_method req = js ''DELETE'' \<longrightarrow> res_status (fst (fetch rt be e req log)) \<noteq> 400)
   \<and> (req_json req = None \<longrightarrow>
        handle_delete rt be e req docPath log =
          handle_delete rt be e (req\<lparr>req_json := Some (JObj [])\<rparr>) docPath log)
   \<and> (req_json req = None \<and> checkAuth req e = AuthOk \<and> req_method req = js ''DELETE'' \<and>
        startsWith (req_pathname req) (js ''/docs/'') \<and>
        decodeURIComponent rt (drop (length (js ''/docs/'')) (req_pathname req)) = Inr docPath \<longrightarrow>
        snd (fetch rt be e req log) = snd (deleteFile rt be e docPath None log))
   \<and> (req_json req = None \<and> checkAuth req e = AuthOk \<and> req_method req = js ''DELETE'' \<and>
        startsWith (req_pathname req) (js ''/docs/'') \<and>
        decodeURIComponent rt (drop (length (js ''/docs/'')) (req_pathname req)) = Inr docPath \<and>
        be log (get_request rt e docPath) = Response st cur \<and> 200 \<le> st \<and> st \<le> 299 \<and>
        get_prop cur (js ''sha'') = Inr sha \<longrightarrow>
        snd (fetch rt be e req log) =
          log @ [get_request rt e docPath,
                 delete_request rt e docPath
                   (JObj ([(js ''message'', JStr (js ''Delete '' @ buildRepoPath e docPath))]
                         @ (case sha of None \<Rightarrow> [] | Some s \<Rightarrow> [(js ''sha'', s)])
                         @ [(js ''branch'', JStr (GITHUB_BRANCH e))]))])
   \<and> get_request rt e docPath =
        \<lparr> gh_method = js ''GET'',
          gh_url = js ''https://api.github.com'' @ js ''/repos/'' @ GITHUB_OWNER e @ [slash] @ GITHUB_REPO e
                   @ js ''/contents/'' @ encodeURIComponent rt (buildRepoPath e docPath)
                   @ js ''?ref='' @ encodeURIComponent rt (GITHUB_BRANCH e),
          gh_headers = [(js ''Authorization'', js ''Bearer '' @ GITHUB_TOKEN e),
                        (js ''Accept'', js ''application/vnd.github+json''),
                        (js ''User-Agent'', js ''cloudflare-docstore-worker'')],
          gh_body = None \<rparr>
   \<and> delete_request rt e docPath body =
        \<lparr> gh_method = js ''DELETE'',
          gh_url = js ''https://api.github.com'' @ js ''/repos/'' @ GITHUB_OWNER e @ [slash] @ GITHUB_REPO e
                   @ js ''/contents/'' @ encodeURIComponent rt (buildRepoPath e docPath),
          gh_headers = [(js ''Authorization'', js ''Bearer '' @ GITHUB_TOKEN e),
                        (js ''Accept'', js ''application/vnd.github+json''),
                        (js ''User-Agent'', js ''cloudflare-docstore-worker''),
                        (js ''Content-Type'', js ''application/json'')],
          gh_body = Some body \<rparr>"
proof (intro conjI impI)
  show "get_request rt e docPath =
        \<lparr> gh_method = js ''GET'',
          gh_url = js ''https://api.github.com'' @ js ''/repos/'' @ GITHUB_OWNER e @ [slash] @ GITHUB_REPO e
                   @ js ''/contents/'' @ encodeURIComponent rt (buildRepoPath e docPath)
                   @ js ''?ref='' @ encodeURIComponent rt (GITHUB_BRANCH e),
          gh_headers = [(js ''Authorization'', js ''Bearer '' @ GITHUB_TOKEN e),
                        (js ''Accept'', js ''application/vnd.github+json''),
                        (js ''User-Agent'', js ''cloudflare-docstore-worker'')],
          gh_body = None \<rparr>"
    by (simp add: get_request_def build_request_def contents_path_def ref_query_def GITHUB_API_BASE_def)
  show "delete_request rt e docPath body =
        \<lparr> gh_method = js ''DELETE'',
          gh_url = js ''https://api.github.com'' @ js ''/repos/'' @ GITHUB_OWNER e @ [slash] @ GITHUB_REPO e
                   @ js ''/contents/'' @ encodeURIComponent rt (buildRepoPath e docPath),
          gh_headers = [(js ''Authorization'', js ''Bearer '' @ GITHUB_TOKEN e),
                        (js ''Accept'', js ''application/vnd.github+json''),
                        (js ''User-Agent'', js ''cloudflare-docstore-worker''),
                        (js ''Content-Type'', js ''application/json'')],
          gh_body = Some body \<rparr>"
    by (simp add: delete_request_def build_request_def contents_path_def GITHUB_API_BASE_def)
next
  assume d: "req_method req = js ''DELETE''"
  show "res_status (fst (fetch rt be e req log)) \<noteq> 400"
  proof (cases "checkAuth req e")
    case AuthOk
    obtain r log1 where r: "route rt be e req log = (r, log1)"
      by (cases "route rt be e req log")
    show ?thesis
    proof (cases r)
      case (Inl err)
      with AuthOk r show ?thesis
        by (simp add: fetch_def jsonResponse_def)
    next
      case (Inr res)
      with AuthOk r route_delete_status [OF d, of rt be e log res log1] show ?thesis
        by (simp add: fetch_def)
    qed
  next
    case (AuthFail st m)
    with checkAuth_status [OF AuthFail] show ?thesis
      by (auto simp: fetch_def jsonResponse_def)
  qed
next
  assume "req_json req = None"
  then show "handle_delete rt be e req docPath log =
          handle_delete rt be e (req\<lparr>req_json := Some (JObj [])\<rparr>) docPath log"
    by (simp add: handle_delete_def)
next
  assume a: "req_json req = None \<and> checkAuth req e = AuthOk \<and> req_method req = js ''DELETE'' \<and>
        startsWith (req_pathname req) (js ''/docs/'') \<and>
        decodeURIComponent rt (drop (length (js ''/docs/'')) (req_pathname req)) = Inr docPath"
  have "snd (handle_delete rt be e req docPath log) = snd (deleteFile rt be e docPath None log)"
    using a by (auto simp: handle_delete_def split: sum.splits prod.splits)
  moreover have "route rt be e req log = handle_delete rt be e req docPath log"
    using a by (simp add: route_delete)
  ultimately show "snd (fetch rt be e req log) = snd (deleteFile rt be e docPath None log)"
    using a by (simp add: fetch_route_log)
next
  assume a: "req_json req = None \<and> checkAuth req e = AuthOk \<and> req_method req = js ''DELETE'' \<and>
        startsWith (req_pathname req) (js ''/docs/'') \<and>
        decodeURIComponent rt (drop (length (js ''/docs/'')) (req_pathname req)) = Inr docPath \<and>
        be log (get_request rt e docPath) = Response st cur \<and> 200 \<le> st \<and> st \<le> 299 \<and>
        get_prop cur (js ''sha'') = Inr sha"
  have del: "snd (deleteFile rt be e docPath None log) =
      log @ [get_request rt e docPath,
             delete_request rt e docPath
               (JObj ([(js ''message'', JStr (js ''Delete '' @ buildRepoPath e docPath))]
                         @ (case sha of None \<Rightarrow> [] | Some s \<Rightarrow> [(js ''sha'', s)])
                         @ [(js ''branch'', JStr (GITHUB_BRANCH e))]))]"
    using a by (simp add: deleteFile_def getFile_eq get_request_def delete_request_def
        githubRequest_ok or_default_def Let_def response_ok_def delete_body_def obj_def split: option.splits)
  have "snd (handle_delete rt be e req docPath log) = snd (deleteFile rt be e docPath None log)"
    using a by (auto simp: handle_delete_def split: sum.splits prod.splits)
  moreover have "route rt be e req log = handle_delete rt be e req docPath log"
    using a by (simp add: route_delete)
  ultimately show "snd (fetch rt be e req log) =
      log @ [get_request rt e docPath,
             delete_request rt e docPath
               (JObj ([(js ''message'', JStr (js ''Delete '' @ buildRepoPath e docPath))]
                         @ (case sha of None \<Rightarrow> [] | Some s \<Rightarrow> [(js ''sha'', s)])
                         @ [(js ''branch'', JStr (GITHUB_BRANCH e))]))]"
    using a del by (simp add: fetch_route_log)
qed

theorem delete_without_json_body_witness:
  "req_method (authorized (js ''DELETE'') (js ''/docs/test.md'') None None) = js ''DELETE'' \<and>
   req_json (authorized (js ''DELETE'') (js ''/docs/test.md'') None None) = None \<and>
   checkAuth (authorized (js ''DELETE'') (js ''/docs/test.md'') None None) test_env = AuthOk \<and>
   startsWith (req_pathname (authorized (js ''DELETE'') (js ''/docs/test.md'') None None)) (js ''/docs/'') \<and>
   decodeURIComponent workers
     (drop (length (js ''/docs/''))
        (req_pathname (authorized (js ''DELETE'') (js ''/docs/test.md'') None None))) = Inr (js ''test.md'') \<and>
   file_store [] (get_request workers test_env (js ''test.md'')) = Response 200 file_json \<and>
   get_prop file_json (js ''sha'') = Inr (Some (JStr (js ''sha-file''))) \<and>
   res_status (fst (fetch workers file_store test_env
      (authorized (js ''DELETE'') (js ''/docs/test.md'') None None) [])) \<noteq> 400 \<and>
   snd (fetch workers file_store test_env
      (authorized (js ''DELETE'') (js ''/docs/test.md'') None None) []) =
     [get_request workers test_env (js ''test.md''),
      delete_request workers test_env (js ''test.md'')
        (JObj [(js ''message'', JStr (js ''Delete docs/test.md'')),
               (js ''sha'', JStr (js ''sha-file'')),
               (js ''branch'', JStr (js ''main''))])] \<and>
   map gh_body (snd (fetch workers file_store test_env
      (authorized (js ''DELETE'') (js ''/docs/test.md'') None None) [])) =
     [None, Some (JObj [(js ''message'', JStr (js ''Delete docs/test.md'')),
                        (js ''sha'', JStr (js ''sha-file'')),
                        (js ''branch'', JStr (js ''main''))])]"
proof -
  let ?req = "authorized (js ''DELETE'') (js ''/docs/test.md'') None None"
  have r1: "req_method ?req = js ''DELETE''"
    by (simp add: authorized_def)
  have r2: "req_json ?req = None"
    by (simp add: authorized_def)
  have au: "checkAuth ?req test_env = AuthOk"
    by (simp add: checkAuth_def authorized_def test_env_def or_default_def js_def)
  have sw: "startsWith (req_pathname ?req) (js ''/docs/'')"
    by (simp add: startsWith_def authorized_def js_def)
  have dec: "decodeURIComponent workers (drop (length (js ''/docs/'')) (req_pathname ?req)) = Inr (js ''test.md'')"
    by (simp add: decodeURIComponent_def authorized_def js_def percent_def)
  have b: "file_store [] (get_request workers test_env (js ''test.md'')) = Response 200 file_json"
    by (simp add: file_store_def get_request_def build_request_def)
  have c: "(200::nat) \<le> 200 \<and> (200::nat) \<le> 299"
    by simp
  have d: "get_prop file_json (js ''sha'') = Inr (Some (JStr (js ''sha-file'')))"
    by (simp add: file_json_def js_def)
  have m: "js ''Delete '' @ js ''docs/test.md'' = js ''Delete docs/test.md''"
    by (simp add: js_def)
  note inst = delete_without_json_body [where be = file_store and log = "[]" and rt = workers
      and e = test_env and req = ?req and docPath = "js ''test.md''" and st = 200 and cur = file_json
      and sha = "Some (JStr (js ''sha-file''))"]
  have 1: "res_status (fst (fetch workers file_store test_env ?req [])) \<noteq> 400"
    by (rule inst [THEN conjunct1, rule_format, OF r1])
  have 2: "snd (fetch workers file_store test_env ?req []) =
     [get_request workers test_env (js ''test.md''),
      delete_request workers test_env (js ''test.md'')
        (JObj [(js ''message'', JStr (js ''Delete docs/test.md'')),
               (js ''sha'', JStr (js ''sha-file'')),
               (js ''branch'', JStr (js ''main''))])]"
    using inst [THEN conjunct2, THEN conjunct2, THEN conjunct2, THEN conjunct1, rule_format,
      OF conjI [OF r2 conjI [OF au conjI [OF r1 conjI [OF sw conjI [OF dec
           conjI [OF b conjI [OF c [THEN conjunct1] conjI [OF c [THEN conjunct2] d]]]]]]]]]
    by (simp only: append_Nil append_Cons buildRepoPath_test_md branch_test_env m option.case)
  have 3: "map gh_body (snd (fetch workers file_store test_env ?req [])) =
     [None, Some (JObj [(js ''message'', JStr (js ''Delete docs/test.md'')),
                        (js ''sha'', JStr (js ''sha-file'')),
                        (js ''branch'', JStr (js ''main''))])]"
    by (simp only: 2 list.map inst [THEN conjunct2, THEN conjunct2, THEN conjunct2, THEN conjunct2, THEN conjunct1]
        inst [THEN conjunct2, THEN conjunct2, THEN conjunct2, THEN conjunct2, THEN conjunct2]
        gh_request.simps)
  from r1 r2 au sw dec b d 1 2 3 show ?thesis
    by (intro conjI)
qed

text \<open>
  C6. \<open>PUT /docs/test.md\<close> with content \<open>Hello world\<close> and message
  \<open>Create test.md\<close> against the empty store issues the read and exactly one write,
  whose body has no \<open>sha\<close> and the configured branch; the response echoes the
  store's \<open>content.path\<close>, which is the repository path \<open>docs/test.md\<close> and not the
  logical path \<open>test.md\<close>.
\<close>

theorem put_response_repository_path:
  "fetch workers empty_store test_env
     (authorized (js ''PUT'') (js ''/docs/test.md'') None
        (Some (JObj [(js ''content'', JStr (js ''Hello world'')),
                     (js ''message'', JStr (js ''Create test.md''))]))) [] =
   (jsonResponse
      (JObj [(js ''path'', JStr (js ''docs/test.md'')), (js ''name'', JStr (js ''test.md'')),
             (js ''sha'', JStr (js ''sha123'')),
             (js ''commit'', JObj [(js ''sha'', JStr (js ''commitsha'')),
                                   (js ''message'', JStr (js ''Create docs/test.md''))])]) 200,
    [get_request workers test_env (js ''test.md''),
     put_request workers test_env (js ''test.md'')
       (JObj [(js ''message'', JStr (js ''Create test.md'')),
              (js ''content'', JStr (js ''SGVsbG8gd29ybGQ='')),
              (js ''branch'', JStr (js ''main''))])])"
  by (simp add: eval_defs)

text \<open>
  C7. The listing handler copies each entry's \<open>path\<close> as the store reports it: for
  the entry \<open>docs/ftl/canon.md\<close> the response holds \<open>docs/ftl/canon.md\<close>, while its
  logical form is \<open>ftl/canon.md\<close>.
\<close>

theorem listing_repository_path:
  "fetch workers listing_store test_env (authorized (js ''GET'') (js ''/docs'') (Some (js ''ftl'')) None) [] =
   (jsonResponse
      (JObj [(js ''items'',
              JArr [JObj [(js ''name'', JStr (js ''canon.md'')),
                          (js ''path'', JStr (js ''docs/ftl/canon.md'')),
                          (js ''type'', JStr (js ''file''))]])]) 200,
    [get_request workers test_env (js ''ftl'')])
   \<and> logicalPathFromGitPath test_env (js ''docs/ftl/canon.md'') = js ''ftl/canon.md''"
  by (simp add: eval_defs logicalPathFromGitPath_def)

section \<open>Base64\<close>

lemma b64_encode_sextets: "b64_encode bs = map b64_char (sextets bs) @ replicate (padding bs) pad"
  by (induction bs rule: sextets.induct) (simp_all add: numeral_2_eq_2)

lemma padding_le: "padding bs \<le> 2"
  by (induction bs rule: padding.induct) simp_all

lemma length_sextets_padding: "(length (sextets bs) + padding bs) mod 4 = 0"
  by (induction bs rule: sextets.induct) simp_all

lemma length_sextets_mod: "length (sextets bs) mod 4 \<noteq> 1"
  by (induction bs rule: sextets.induct) simp_all

lemma sextets_bound: "\<forall>b \<in> set bs. b < 256 \<Longrightarrow> \<forall>x \<in> set (sextets bs). x < 64"
  by (induction bs rule: sextets.induct) auto

lemma b64_decode_sextets: "\<forall>b \<in> set bs. b < 256 \<Longrightarrow> b64_decode (sextets bs) = bs"
  by (induction bs rule: sextets.induct) auto



lemma unat_of_nat16: "m < 65536 \<Longrightarrow> unat (of_nat m :: 16 word) = m"
  by (simp add: unat_of_nat)

lemma b64_code_bound: "b64_code n < 65536"
  by (auto simp: b64_code_def)

lemma unat_b64_char: "unat (b64_char n) = b64_code n"
  by (simp only: b64_char_def unat_of_nat16 [OF b64_code_bound])

lemma b64_index_char: "n < 64 \<Longrightarrow> b64_index (b64_char n) = Some n"
  by (simp add: b64_index_def unat_b64_char Let_def) (auto simp: b64_code_def)

lemma those_index_chars: "\<forall>x \<in> set sx. x < 64 \<Longrightarrow> those (map b64_index (map b64_char sx)) = Some sx"
  by (induction sx) (simp_all add: b64_index_char)

lemma b64_char_not_pad: "n < 64 \<Longrightarrow> b64_char n \<noteq> pad"
proof
  assume "n < 64" "b64_char n = pad"
  then have "b64_code n = unat pad"
    by (simp add: unat_b64_char [symmetric])
  with \<open>n < 64\<close> show False
    by (auto simp: pad_def b64_code_def split: if_splits)
qed

lemma b64_char_not_ws: "n < 64 \<Longrightarrow> \<not> ascii_whitespace (b64_char n)"
proof
  assume "n < 64" "ascii_whitespace (b64_char n)"
  then have "b64_code n \<in> {unat (0x09 :: code_unit), unat (0x0A :: code_unit), unat (0x0C :: code_unit),
       unat (0x0D :: code_unit), unat (0x20 :: code_unit)}"
    unfolding ascii_whitespace_def unat_b64_char [symmetric] by auto
  with \<open>n < 64\<close> show False
    by (auto simp: b64_code_def split: if_splits)
qed

lemma pad_not_ws: "\<not> ascii_whitespace pad"
  by (simp add: ascii_whitespace_def pad_def)


lemma strip_padding_encoded:
  assumes "\<forall>x \<in> set sx. x < 64" "(length sx + k) mod 4 = 0" "k \<le> 2"
  shows "strip_padding (map b64_char sx @ replicate k pad) = map b64_char sx"
proof -
  have last_np: "sx \<noteq> [] \<Longrightarrow> b64_char (last sx) \<noteq> pad"
    using assms(1) by (simp add: b64_char_not_pad)
  consider "k = 0" | "k = 1" | "k = 2"
    using assms(3) by linarith
  then show ?thesis
  proof cases
    case 1
    show ?thesis
    proof (cases sx rule: rev_cases)
      case Nil
      with 1 show ?thesis by (simp add: strip_padding_def)
    next
      case (snoc ys y)
      with assms(1) have "b64_char y \<noteq> pad"
        by (simp add: b64_char_not_pad)
      with 1 snoc show ?thesis
        by (simp add: strip_padding_def)
    qed
  next
    case 2
    show ?thesis
    proof (cases sx rule: rev_cases)
      case Nil
      with 2 assms(2) show ?thesis by simp
    next
      case (snoc ys y)
      with assms(1) have "b64_char y \<noteq> pad"
        by (simp add: b64_char_not_pad)
      with 2 snoc assms(2) show ?thesis
        by (simp add: strip_padding_def)
    qed
  next
    case 3
    with assms(2) show ?thesis
      by (simp add: strip_padding_def numeral_2_eq_2)
  qed
qed

lemma filter_ws_encoded:
  "\<forall>x \<in> set sx. x < 64 \<Longrightarrow>
   filter (\<lambda>c. \<not> ascii_whitespace c) (map b64_char sx @ replicate k pad) = map b64_char sx @ replicate k pad"
  by (simp add: filter_id_conv b64_char_not_ws pad_not_ws)

lemma atob_b64_encode:
  assumes "\<forall>b \<in> set bs. b < 256"
  shows "atob (b64_encode bs) = Inr (map of_nat bs)"
proof -
  have sx: "\<forall>x \<in> set (sextets bs). x < 64"
    using assms by (rule sextets_bound)
  have "strip_padding (filter (\<lambda>c. \<not> ascii_whitespace c) (b64_encode bs)) = map b64_char (sextets bs)"
    by (simp only: b64_encode_sextets filter_ws_encoded [OF sx]
        strip_padding_encoded [OF sx length_sextets_padding padding_le])
  then show ?thesis
    using length_sextets_mod [of bs]
    by (simp add: atob_def those_index_chars [OF sx] b64_decode_sextets [OF assms] del: map_map)
qed

lemma of_nat_unat_list: "map of_nat (map unat s) = (s :: jsstring)"
  by (induction s) simp_all

lemma atob_btoa_latin1:
  assumes "\<forall>c \<in> set s. c \<le> 0xFF"
  shows "bindE (btoa s) atob = Inr s"
proof -
  have f: "filter (\<lambda>c. 0xFF < c) s = []"
    using assms by (auto simp: filter_empty_conv)
  have "\<forall>b \<in> set (map unat s). b < 256"
    using assms by (auto simp: word_le_nat_alt)
  then show ?thesis
    by (simp add: btoa_def f bindE_def atob_b64_encode of_nat_unat_list del: map_map)
qed

lemma fromBase64_toBase64_latin1:
  assumes "has_btoa rt" "has_atob rt" "\<forall>c \<in> set s. c \<le> 0xFF"
  shows "bindE (toBase64 rt s) (fromBase64 rt) = Inr s"
proof -
  have "fromBase64 rt = atob"
    using assms(2) by (simp add: fromBase64_def fun_eq_iff)
  then show ?thesis
    using assms(1) atob_btoa_latin1 [OF assms(3)] by (simp add: toBase64_def)
qed

lemma toBase64_above_latin1:
  assumes "has_btoa rt" "c \<in> set s" "0xFF < c"
  shows "toBase64 rt s = Inl InvalidCharacterError"
proof -
  have "filter (\<lambda>c. 0xFF < c) s \<noteq> []"
    using assms(2,3) by (auto simp: filter_empty_conv)
  then show ?thesis
    using assms(1) by (simp add: toBase64_def btoa_def)
qed

text \<open>
  C9. Where \<open>btoa\<close> exists, \<open>toBase64\<close> throws on text with a code unit above
  U+00FF: the emoji U+1F618 (a surrogate pair) and two CJK ideographs are rejected, so
  encoding followed by decoding does not return them.
\<close>

theorem toBase64_multibyte_throws:
  "toBase64 workers [0xD83D, 0xDE18] = Inl InvalidCharacterError \<and>
   toBase64 workers [0x6F22, 0x5B57] = Inl InvalidCharacterError \<and>
   bindE (toBase64 workers [0xD83D, 0xDE18]) (fromBase64 workers) \<noteq> Inr [0xD83D, 0xDE18]"
  by (simp add: toBase64_def workers_def btoa_def bindE_def)

end
